theory Spec2Isabelle
  imports Main
begin

section \<open>Python values: strings, exceptions, defects\<close>

text \<open>
  A Python \<open>str\<close> is a sequence of Unicode code points, lone surrogates included; it is
  modelled as a list of code points. \<open>py\<close> turns an ASCII literal into such a list.
\<close>

type_synonym pystr = "nat list"

definition py :: "string \<Rightarrow> pystr" where
  "py s = map of_char s"

text \<open>
  Exceptions are values. \<open>IndexError\<close> stands for the class and its subclasses, which is
  what \<open>except IndexError\<close> catches. \<open>HeaderParseError\<close> carries its message.
\<close>

datatype exn =
    IndexError
  | KeyError
  | TypeError
  | UnicodeEncodeError
  | HeaderParseError pystr
  | OtherError string

text \<open>
  A defect is an object of a class of \<open>email.errors\<close> holding a message. Messages built
  with \<open>'{!r}'.format\<close> keep the formatted argument apart, so that \<open>repr\<close> needs no model.
\<close>

datatype message =
    Text pystr
  | TextRepr pystr pystr
  | TextReprExn pystr exn

datatype defect =
    InvalidHeaderDefect message
  | ObsoleteHeaderDefect message
  | UndecodableBytesDefect message
  | NonPrintableDefect pystr
  | OtherDefect string message

section \<open>Parse trees of the email package\<close>

text \<open>
  \<open>email._header_value_parser\<close> builds parse trees from two kinds of node: a \<open>Terminal\<close>
  (a \<open>str\<close> subclass with a token type and a defect list) and a \<open>TokenList\<close> (a \<open>list\<close>
  subclass with a class, a token type and a defect list).
  \<^verbatim>\<open>
  class TokenList(list):
      def __init__(self, *args, **kw):
          super().__init__(*args, **kw)
          self.defects = []
      def __str__(self):
          return ''.join(str(x) for x in self)
      @property
      def all_defects(self):
          return sum((x.all_defects for x in self), self.defects)
  class Terminal(str):
      @property
      def all_defects(self):
          return list(self.defects)
  class EWWhiteSpaceTerminal(WhiteSpaceTerminal):
      def __str__(self):
          return ''
  \<close>
\<close>

datatype terminal_class = ValueTerminal | WhiteSpaceTerminal | EWWhiteSpaceTerminal

datatype token =
    Terminal terminal_class string pystr "defect list"
  | TokenList string string "token list" "defect list"

fun token_type :: "token \<Rightarrow> string" where
  "token_type (Terminal c ty s ds) = ty"
| "token_type (TokenList c ty xs ds) = ty"

fun class_name :: "token \<Rightarrow> string" where
  "class_name (Terminal c ty s ds) =
     (case c of ValueTerminal \<Rightarrow> ''ValueTerminal''
      | WhiteSpaceTerminal \<Rightarrow> ''WhiteSpaceTerminal''
      | EWWhiteSpaceTerminal \<Rightarrow> ''EWWhiteSpaceTerminal'')"
| "class_name (TokenList c ty xs ds) = c"

fun defects :: "token \<Rightarrow> defect list" where
  "defects (Terminal c ty s ds) = ds"
| "defects (TokenList c ty xs ds) = ds"

text \<open>Iterating a token list yields its elements; a terminal has none that are tokens.\<close>

fun items :: "token \<Rightarrow> token list" where
  "items (Terminal c ty s ds) = []"
| "items (TokenList c ty xs ds) = xs"

text \<open>
  \<open>str.replace\<close> of one character by a string, and the two quoting helpers that the
  classes \<open>BareQuotedString\<close> and \<open>Comment\<close> use in their \<open>__str__\<close>.
  \<open>BareQuotedString.__str__\<close> is \<open>quote_string\<close> of the joined elements;
  \<open>Comment.__str__\<close> joins \<open>"("\<close>, \<open>self.quote(x)\<close> for each element and \<open>")"\<close>.
  \<^verbatim>\<open>
  def quote_string(value):
      return '"'+str(value).replace('\\', '\\\\').replace('"', r'\"')+'"'
  class Comment(WhiteSpaceTokenList):
      def quote(self, value):
          if value.token_type == 'comment':
              return str(value)
          return str(value).replace('\\', '\\\\').replace(
                                    '(', r'\(').replace(
                                    ')', r'\)')
  \<close>
\<close>

definition replace_char :: "nat \<Rightarrow> pystr \<Rightarrow> pystr \<Rightarrow> pystr" where
  "replace_char c r s = concat (map (\<lambda>x. if x = c then r else [x]) s)"

definition quote_string :: "pystr \<Rightarrow> pystr" where
  "quote_string v = [34] @ replace_char 34 [92, 34] (replace_char 92 [92, 92] v) @ [34]"

definition comment_escape :: "pystr \<Rightarrow> pystr" where
  "comment_escape v =
     replace_char 41 [92, 41] (replace_char 40 [92, 40] (replace_char 92 [92, 92] v))"

fun tok_str :: "token \<Rightarrow> pystr" where
  "tok_str (Terminal c ty s ds) = (if c = EWWhiteSpaceTerminal then [] else s)"
| "tok_str (TokenList c ty xs ds) =
     (if c = ''BareQuotedString'' then quote_string (concat (map tok_str xs))
      else if c = ''Comment'' then
        [40] @ concat (map (\<lambda>x. if token_type x = ''comment'' then tok_str x
                                      else comment_escape (tok_str x)) xs) @ [41]
      else concat (map tok_str xs))"

fun all_defects :: "token \<Rightarrow> defect list" where
  "all_defects (Terminal c ty s ds) = ds"
| "all_defects (TokenList c ty xs ds) = ds @ concat (map all_defects xs)"

text \<open>
  \<^verbatim>\<open>
  class MessageID(MsgID):
      token_type = 'message-id'
  class InvalidMessageID(MessageID):
      token_type = 'invalid-message-id'
  \<close>
  \<open>InvalidMessageID(token)\<close> is \<open>list.__init__\<close> on the elements of \<open>token\<close>, with a
  fresh empty defect list: the defects that \<open>token\<close> itself holds are not taken over.
\<close>

definition InvalidMessageID :: "token \<Rightarrow> token" where
  "InvalidMessageID tok = TokenList ''InvalidMessageID'' ''invalid-message-id'' (items tok) []"

definition defects_append :: "token \<Rightarrow> defect \<Rightarrow> token" where
  "defects_append tok d =
     (case tok of Terminal c ty s ds \<Rightarrow> Terminal c ty s (ds @ [d])
      | TokenList c ty xs ds \<Rightarrow> TokenList c ty xs (ds @ [d]))"

section \<open>The collaborators that are not embedded\<close>

text \<open>
  The source extends classes of Python's \<open>email\<close> package. The glue of that package
  (\<open>BaseHeader.__new__\<close>, \<open>UnstructuredHeader.parse\<close>, \<open>HeaderRegistry\<close>) is embedded
  below; the grammars and the codecs are taken as the fields of a record, with no
  assumption on what they return:
  \<^item> \<open>parser_parse_message_id\<close> is \<open>parser.parse_message_id\<close>, the \<open>value_parser\<close> of
    \<open>MessageIDHeader\<close>, which \<open>RelayMessageIDHeader\<close> inherits;
  \<^item> \<open>parser_get_unstructured\<close> is \<open>parser.get_unstructured\<close>; it returns the elements
    and the defects of the \<open>UnstructuredTokenList\<close> it builds;
  \<^item> \<open>lower_non_ascii\<close> is \<open>str.lower\<close> on a string with a non-ASCII character;
  \<^item> \<open>decode_replace\<close> is \<open>bytes.decode('utf-8', 'replace')\<close> after
    \<open>str.encode('utf-8', 'surrogateescape')\<close>, on a string that can be so encoded;
  \<^item> \<open>other_class_new\<close> is the constructor of every other header class (the date,
    address and MIME headers of the default map, or a class that a caller registers),
    given its name.
\<close>

record base_header =
  h_name :: pystr
  h_decoded :: pystr
  h_parse_tree :: token
  h_defects :: "defect list"

record runtime =
  lower_non_ascii :: "pystr \<Rightarrow> pystr"
  decode_replace :: "pystr \<Rightarrow> pystr"
  other_class_new :: "string \<Rightarrow> pystr \<Rightarrow> pystr \<Rightarrow> exn + base_header"

record lib = runtime +
  parser_parse_message_id :: "pystr \<Rightarrow> exn + token"
  parser_get_unstructured :: "pystr \<Rightarrow> exn + token list \<times> defect list"

definition get_unstructured :: "lib \<Rightarrow> pystr \<Rightarrow> exn + token" where
  "get_unstructured L v =
     (case parser_get_unstructured L v of
        Inl e \<Rightarrow> Inl e
      | Inr (xs, ds) \<Rightarrow> Inr (TokenList ''UnstructuredTokenList'' ''unstructured'' xs ds))"

text \<open>
  \<open>str.lower\<close>: on an ASCII string it maps \<open>A\<close> to \<open>Z\<close> onto \<open>a\<close> to \<open>z\<close>.
\<close>

definition ascii_lower :: "nat \<Rightarrow> nat" where
  "ascii_lower c = (if 65 \<le> c \<and> c \<le> 90 then c + 32 else c)"

definition lower :: "lib \<Rightarrow> pystr \<Rightarrow> pystr" where
  "lower L s = (if list_all (\<lambda>c. c < 128) s then map ascii_lower s else lower_non_ascii L s)"

text \<open>
  \<^verbatim>\<open>
  def _has_surrogates(s):
      try:
          s.encode()
          return False
      except UnicodeEncodeError:
          return True
  def _sanitize(string):
      original_bytes = string.encode('utf-8', 'surrogateescape')
      return original_bytes.decode('utf-8', 'replace')
  \<close>
  The strict UTF-8 encoder refuses exactly the surrogates U+D800 to U+DFFF; with
  \<open>surrogateescape\<close> it accepts the surrogates U+DC80 to U+DCFF and still refuses the
  others.
\<close>

definition is_surrogate :: "nat \<Rightarrow> bool" where
  "is_surrogate c = (55296 \<le> c \<and> c \<le> 57343)"

definition is_escaped_byte :: "nat \<Rightarrow> bool" where
  "is_escaped_byte c = (56448 \<le> c \<and> c \<le> 56575)"

definition has_surrogates :: "pystr \<Rightarrow> bool" where
  "has_surrogates s = list_ex is_surrogate s"

definition sanitize :: "lib \<Rightarrow> pystr \<Rightarrow> exn + pystr" where
  "sanitize L s =
     (if list_ex (\<lambda>c. is_surrogate c \<and> \<not> is_escaped_byte c) s then Inl UnicodeEncodeError
      else Inr (decode_replace L s))"

section \<open>Header classes\<close>

text \<open>
  \<open>parse\<close> receives the raw value and the dictionary \<open>kwds\<close>, which it fills in place.
  A key that is absent is \<open>None\<close>; reading it raises \<open>KeyError\<close>. When \<open>parse\<close> raises,
  the caller \<open>BaseHeader.__new__\<close> drops the dictionary, so the result is the exception.
\<close>

record kwds =
  kw_parse_tree :: "token option"
  kw_decoded :: "pystr option"
  kw_defects :: "defect list option"

text \<open>
  \<^verbatim>\<open>
  class UnstructuredHeader:
      max_count = None
      value_parser = staticmethod(parser.get_unstructured)
      @classmethod
      def parse(cls, value, kwds):
          kwds['parse_tree'] = cls.value_parser(value)
          kwds['decoded'] = str(kwds['parse_tree'])
  \<close>
\<close>

definition UnstructuredHeader_parse :: "lib \<Rightarrow> pystr \<Rightarrow> kwds \<Rightarrow> exn + kwds" where
  "UnstructuredHeader_parse L v kw =
     (case get_unstructured L v of
        Inl e \<Rightarrow> Inl e
      | Inr parse_tree \<Rightarrow>
          Inr (kw\<lparr>kw_parse_tree := Some parse_tree, kw_decoded := Some (tok_str parse_tree)\<rparr>))"

text \<open>
  \<^verbatim>\<open>
  class MessageIDHeader:
      max_count = 1
      value_parser = staticmethod(parser.parse_message_id)
      @classmethod
      def parse(cls, value, kwds):
          kwds['parse_tree'] = parse_tree = cls.value_parser(value)
          kwds['decoded'] = str(parse_tree)
          kwds['defects'].extend(parse_tree.all_defects)
  \<close>
  The last three statements are also the last three of \<open>RelayMessageIDHeader.parse\<close>.
\<close>

definition store_parse_tree :: "token \<Rightarrow> kwds \<Rightarrow> exn + kwds" where
  "store_parse_tree parse_tree kw =
     (case kw_defects kw of
        None \<Rightarrow> Inl KeyError
      | Some ds \<Rightarrow>
          Inr (kw\<lparr>kw_parse_tree := Some parse_tree,
                  kw_decoded := Some (tok_str parse_tree),
                  kw_defects := Some (ds @ all_defects parse_tree)\<rparr>))"

definition MessageIDHeader_parse :: "lib \<Rightarrow> pystr \<Rightarrow> kwds \<Rightarrow> exn + kwds" where
  "MessageIDHeader_parse L v kw =
     (case parser_parse_message_id L v of
        Inl e \<Rightarrow> Inl e
      | Inr parse_tree \<Rightarrow> store_parse_tree parse_tree kw)"

text \<open>
  The source, \<open>emails/headerregistry.py\<close>:
  \<^verbatim>\<open>
  class RelayMessageIDHeader(PythonMessageIDHeader):
      @classmethod
      def parse(cls, value, kwds):
          try:
              parse_tree = cls.value_parser(value)
          except IndexError:
              token = get_unstructured(value)
              message_id = InvalidMessageID(token)
              message_id.defects.append(
                  errors.InvalidHeaderDefect(
                      f"IndexError for invalid msg-id in '{value}'"
                  )
              )
              parse_tree = message_id
          kwds["parse_tree"] = parse_tree
          kwds["decoded"] = str(parse_tree)
          kwds["defects"].extend(parse_tree.all_defects)
  \<close>
  \<open>fallback_defect\<close> is the defect of the handler and \<open>fallback_tree\<close> the tree it builds.
\<close>

definition fallback_defect :: "pystr \<Rightarrow> defect" where
  "fallback_defect v =
     InvalidHeaderDefect (Text (py ''IndexError for invalid msg-id in '' @ [39] @ v @ [39]))"

definition fallback_tree :: "pystr \<Rightarrow> token \<Rightarrow> token" where
  "fallback_tree v tok = defects_append (InvalidMessageID tok) (fallback_defect v)"

definition RelayMessageIDHeader_parse :: "lib \<Rightarrow> pystr \<Rightarrow> kwds \<Rightarrow> exn + kwds" where
  "RelayMessageIDHeader_parse L v kw =
     (case parser_parse_message_id L v of
        Inr parse_tree \<Rightarrow> store_parse_tree parse_tree kw
      | Inl IndexError \<Rightarrow>
          (case get_unstructured L v of
             Inl e \<Rightarrow> Inl e
           | Inr tok \<Rightarrow> store_parse_tree (fallback_tree v tok) kw)
      | Inl e \<Rightarrow> Inl e)"

text \<open>
  The classes a name can be mapped to. Those whose \<open>parse\<close> is embedded are constructors
  of their own; every other class goes by its name.
\<close>

datatype header_class =
    UnstructuredHeader
  | UniqueUnstructuredHeader
  | MessageIDHeader
  | RelayMessageIDHeader
  | OtherHeader string

text \<open>
  \<^verbatim>\<open>
  class BaseHeader(str):
      def __new__(cls, name, value):
          kwds = {'defects': []}
          cls.parse(value, kwds)
          if utils._has_surrogates(kwds['decoded']):
              kwds['decoded'] = utils._sanitize(kwds['decoded'])
          self = str.__new__(cls, kwds['decoded'])
          del kwds['decoded']
          self.init(name, **kwds)
          return self
      def init(self, name, *, parse_tree, defects):
          self._name = name
          self._parse_tree = parse_tree
          self._defects = defects
  \<close>
  The instance is a string, its decoded value, with three attributes. \<open>init\<close> has two
  required keyword arguments, so a dictionary without one of them is a \<open>TypeError\<close>.
\<close>

definition BaseHeader_new ::
  "lib \<Rightarrow> (pystr \<Rightarrow> kwds \<Rightarrow> exn + kwds) \<Rightarrow> pystr \<Rightarrow> pystr \<Rightarrow> exn + base_header" where
  "BaseHeader_new L parse name v =
     (case parse v \<lparr>kw_parse_tree = None, kw_decoded = None, kw_defects = Some []\<rparr> of
        Inl e \<Rightarrow> Inl e
      | Inr kw \<Rightarrow>
          (case kw_decoded kw of
             None \<Rightarrow> Inl KeyError
           | Some d \<Rightarrow>
               (case (if has_surrogates d then sanitize L d else Inr d) of
                  Inl e \<Rightarrow> Inl e
                | Inr decoded \<Rightarrow>
                    (case (kw_parse_tree kw, kw_defects kw) of
                       (Some t, Some ds) \<Rightarrow>
                         Inr \<lparr>h_name = name, h_decoded = decoded,
                              h_parse_tree = t, h_defects = ds\<rparr>
                     | _ \<Rightarrow> Inl TypeError))))"

text \<open>
  Calling the class \<open>type('_' + cls.__name__, (cls, BaseHeader), {})\<close>: \<open>__new__\<close> and
  \<open>init\<close> come from \<open>BaseHeader\<close> and \<open>parse\<close> from \<open>cls\<close>. \<open>UniqueUnstructuredHeader\<close>
  only sets \<open>max_count\<close> and inherits \<open>parse\<close>.
\<close>

fun class_new :: "lib \<Rightarrow> header_class \<Rightarrow> pystr \<Rightarrow> pystr \<Rightarrow> exn + base_header" where
  "class_new L UnstructuredHeader name v = BaseHeader_new L (UnstructuredHeader_parse L) name v"
| "class_new L UniqueUnstructuredHeader name v =
     BaseHeader_new L (UnstructuredHeader_parse L) name v"
| "class_new L MessageIDHeader name v = BaseHeader_new L (MessageIDHeader_parse L) name v"
| "class_new L RelayMessageIDHeader name v =
     BaseHeader_new L (RelayMessageIDHeader_parse L) name v"
| "class_new L (OtherHeader c) name v = other_class_new L c name v"

section \<open>The registry\<close>

text \<open>
  \<^verbatim>\<open>
  class HeaderRegistry:
      def __init__(self, base_class=BaseHeader, default_class=UnstructuredHeader,
                         use_default_map=True):
          self.registry = {}
          self.base_class = base_class
          self.default_class = default_class
          if use_default_map:
              self.registry.update(_default_header_map)
      def map_to_type(self, name, cls):
          self.registry[name.lower()] = cls
      def __getitem__(self, name):
          cls = self.registry.get(name.lower(), self.default_class)
          return type('_'+cls.__name__, (cls, self.base_class), {})
      def __call__(self, name, value):
          return self[name](name, value)
  \<close>
  The source builds its one registry with no argument, so \<open>base_class\<close> is \<open>BaseHeader\<close>
  throughout; the state of a registry is its dictionary and its default class.
\<close>

record header_registry =
  registry :: "pystr \<rightharpoonup> header_class"
  default_class :: header_class

definition default_header_map :: "(pystr \<times> header_class) list" where
  "default_header_map =
     [(py ''subject'', UniqueUnstructuredHeader),
      (py ''date'', OtherHeader ''UniqueDateHeader''),
      (py ''resent-date'', OtherHeader ''DateHeader''),
      (py ''orig-date'', OtherHeader ''UniqueDateHeader''),
      (py ''sender'', OtherHeader ''UniqueSingleAddressHeader''),
      (py ''resent-sender'', OtherHeader ''SingleAddressHeader''),
      (py ''to'', OtherHeader ''UniqueAddressHeader''),
      (py ''resent-to'', OtherHeader ''AddressHeader''),
      (py ''cc'', OtherHeader ''UniqueAddressHeader''),
      (py ''resent-cc'', OtherHeader ''AddressHeader''),
      (py ''bcc'', OtherHeader ''UniqueAddressHeader''),
      (py ''resent-bcc'', OtherHeader ''AddressHeader''),
      (py ''from'', OtherHeader ''UniqueAddressHeader''),
      (py ''resent-from'', OtherHeader ''AddressHeader''),
      (py ''reply-to'', OtherHeader ''UniqueAddressHeader''),
      (py ''mime-version'', OtherHeader ''MIMEVersionHeader''),
      (py ''content-type'', OtherHeader ''ContentTypeHeader''),
      (py ''content-disposition'', OtherHeader ''ContentDispositionHeader''),
      (py ''content-transfer-encoding'', OtherHeader ''ContentTransferEncodingHeader''),
      (py ''message-id'', MessageIDHeader)]"

definition HeaderRegistry_init :: header_registry where
  "HeaderRegistry_init =
     \<lparr>registry = map_of default_header_map, default_class = UnstructuredHeader\<rparr>"


definition HeaderRegistry_getitem :: "lib \<Rightarrow> header_registry \<Rightarrow> pystr \<Rightarrow> header_class" where
  "HeaderRegistry_getitem L R name =
     (case registry R (lower L name) of None \<Rightarrow> default_class R | Some cls \<Rightarrow> cls)"

definition HeaderRegistry_call ::
  "lib \<Rightarrow> header_registry \<Rightarrow> pystr \<Rightarrow> pystr \<Rightarrow> exn + base_header" where
  "HeaderRegistry_call L R name v = class_new L (HeaderRegistry_getitem L R name) name v"

text \<open>
  The source:
  \<^verbatim>\<open>
  class RelayHeaderRegistry(PythonHeaderRegistry):
      def __call__(self, name, value):
          header_instance = super().__call__(name, value)
          as_unstructured_cls = type(
              "_UnstructuredHeader", (UnstructuredHeader, self.base_class), {}
          )
          as_unstructured = as_unstructured_cls(name, value)
          header_instance.as_unstructured = as_unstructured
          return header_instance

  relay_header_factory = RelayHeaderRegistry()
  relay_header_factory.registry["message-id"] = cast(
      type["_HeaderParser"], RelayMessageIDHeader
  )
  \<close>
  The instance that \<open>__call__\<close> returns is the one of the parent class with one more
  attribute; before the assignment the attribute is absent.
\<close>

record header_instance = base_header +
  as_unstructured :: "base_header option"

definition RelayHeaderRegistry_call ::
  "lib \<Rightarrow> header_registry \<Rightarrow> pystr \<Rightarrow> pystr \<Rightarrow> exn + header_instance" where
  "RelayHeaderRegistry_call L R name v =
     (case HeaderRegistry_call L R name v of
        Inl e \<Rightarrow> Inl e
      | Inr header_instance \<Rightarrow>
          (case class_new L UnstructuredHeader name v of
             Inl e \<Rightarrow> Inl e
           | Inr u \<Rightarrow> Inr (base_header.extend header_instance
                               \<lparr>as_unstructured = Some u\<rparr>)))"

definition relay_header_factory :: header_registry where
  "relay_header_factory =
     HeaderRegistry_init\<lparr>registry :=
       (registry HeaderRegistry_init)(py ''message-id'' \<mapsto> RelayMessageIDHeader)\<rparr>"

section \<open>The message-id and unstructured grammars of CPython\<close>

text \<open>
  The docstring of \<open>RelayMessageIDHeader\<close> refers to CPython issue 105802, "unmerged as
  of October 2023": the grammar meant is that of \<open>email/_header_value_parser.py\<close> of
  CPython 3.11. What \<open>parse_message_id\<close> and \<open>get_unstructured\<close> do themselves is
  embedded here; the sub-grammars they call for comments, quoted strings, domains and
  encoded words are the fields of the record \<open>grammar\<close>, again with no assumption:
  \<^item> \<open>get_cfws\<close>, \<open>get_no_fold_literal\<close>, \<open>get_domain\<close> are the functions of these names;
  \<^item> \<open>obs_local_part_words\<close> is \<open>get_obs_local_part\<close> on a value that enters its loop;
  \<^item> \<open>unstructured_encoded_word\<close> is the rest of the loop of \<open>get_unstructured\<close> from
    a value that starts with \<open>=?\<close>, given the tokens and defects collected so far.
  \<^verbatim>\<open>
  WSP = set(' \t')
  CFWS_LEADER = WSP | set('(')
  SPECIALS = set(r'()<>@,:;.\"[]')
  ATOM_ENDS = SPECIALS | WSP
  PHRASE_ENDS = SPECIALS - set('."(')
  \<close>
\<close>

record grammar = runtime +
  get_cfws :: "pystr \<Rightarrow> exn + token \<times> pystr"
  obs_local_part_words :: "pystr \<Rightarrow> exn + token \<times> pystr"
  get_no_fold_literal :: "pystr \<Rightarrow> exn + token \<times> pystr"
  get_domain :: "pystr \<Rightarrow> exn + token \<times> pystr"
  unstructured_encoded_word ::
    "token list \<Rightarrow> defect list \<Rightarrow> pystr \<Rightarrow> exn + token list \<times> defect list"

definition WSP :: "nat set" where
  "WSP = {32, 9}"

definition CFWS_LEADER :: "nat set" where
  "CFWS_LEADER = WSP \<union> {40}"

definition SPECIALS :: "nat set" where
  "SPECIALS = {40, 41, 60, 62, 64, 44, 58, 59, 46, 92, 34, 91, 93}"

definition ATOM_ENDS :: "nat set" where
  "ATOM_ENDS = SPECIALS \<union> WSP"

definition PHRASE_ENDS :: "nat set" where
  "PHRASE_ENDS = SPECIALS - {46, 34, 40}"

text \<open>
  String primitives. \<open>isspace\<close> lists the code points that \<open>str.lstrip()\<close> strips;
  \<open>partition_before s p\<close> is the first component of \<open>s.partition(p)\<close>.
\<close>

definition isspace :: "nat \<Rightarrow> bool" where
  "isspace c = (c \<in> {9, 10, 11, 12, 13, 28, 29, 30, 31, 32, 133, 160, 5760, 8192, 8193, 8194,
     8195, 8196, 8197, 8198, 8199, 8200, 8201, 8202, 8232, 8233, 8239, 8287, 12288})"

definition startswith :: "pystr \<Rightarrow> pystr \<Rightarrow> bool" where
  "startswith s p = (take (length p) s = p)"

fun contains :: "pystr \<Rightarrow> pystr \<Rightarrow> bool" where
  "contains [] p = (p = [])"
| "contains (c # s) p = (startswith (c # s) p \<or> contains s p)"

fun partition_before :: "pystr \<Rightarrow> pystr \<Rightarrow> pystr" where
  "partition_before [] p = []"
| "partition_before (c # s) p = (if startswith (c # s) p then [] else c # partition_before s p)"

text \<open>
  \<^verbatim>\<open>
  rfc2047_matcher = re.compile(r'''
     =\?            # literal =?
     [^?]*          # charset
     \?             # literal ?
     [qQbB]         # literal 'q' or 'b', case insensitive
     \?             # literal ?
    .*?             # encoded word
    \?=             # literal ?=
  ''', re.VERBOSE | re.MULTILINE)
  \<close>
  \<open>rfc2047_match\<close> is a match at the start of the string, \<open>rfc2047_search\<close> is
  \<open>rfc2047_matcher.search\<close>. The charset ends at the first \<open>?\<close>, and \<open>.\<close> matches every
  character but the newline.
\<close>

definition rfc2047_match :: "pystr \<Rightarrow> bool" where
  "rfc2047_match s =
     (startswith s [61, 63] \<and>
      (case dropWhile (\<lambda>c. c \<noteq> 63) (drop 2 s) of
         q1 # e # q2 # rest \<Rightarrow>
           e \<in> {113, 81, 98, 66} \<and> q2 = 63 \<and>
           contains (takeWhile (\<lambda>c. c \<noteq> 10) rest) [63, 61]
       | _ \<Rightarrow> False))"

fun rfc2047_search :: "pystr \<Rightarrow> bool" where
  "rfc2047_search [] = False"
| "rfc2047_search (c # s) = (rfc2047_match (c # s) \<or> rfc2047_search s)"

text \<open>
  \<^verbatim>\<open>
  _non_printable_finder = re.compile(r"[\x00-\x20\x7F]").findall
  def _validate_xtext(xtext):
      non_printables = _non_printable_finder(xtext)
      if non_printables:
          xtext.defects.append(errors.NonPrintableDefect(non_printables))
      if utils._has_surrogates(xtext):
          xtext.defects.append(errors.UndecodableBytesDefect(
              "Non-ASCII characters found in header token"))
  def get_fws(value):
      newvalue = value.lstrip()
      fws = WhiteSpaceTerminal(value[:len(value)-len(newvalue)], 'fws')
      return fws, newvalue
  \<close>
  \<open>validate_xtext\<close> returns the defects that \<open>_validate_xtext\<close> appends to a terminal
  that has none yet.
\<close>

definition validate_xtext :: "pystr \<Rightarrow> defect list" where
  "validate_xtext xtext =
     (let non_printables = filter (\<lambda>c. c \<le> 32 \<or> c = 127) xtext in
      (if non_printables \<noteq> [] then [NonPrintableDefect non_printables] else []) @
      (if has_surrogates xtext
       then [UndecodableBytesDefect (Text (py ''Non-ASCII characters found in header token''))]
       else []))"

definition get_fws :: "pystr \<Rightarrow> token \<times> pystr" where
  "get_fws v = (Terminal WhiteSpaceTerminal ''fws'' (takeWhile isspace v) [], dropWhile isspace v)"

text \<open>
  \<^verbatim>\<open>
  _wsp_splitter = re.compile(r'([{}]+)'.format(''.join(WSP))).split
  def get_unstructured(value):
      unstructured = UnstructuredTokenList()
      while value:
          if value[0] in WSP:
              token, value = get_fws(value)
              unstructured.append(token)
              continue
          valid_ew = True
          if value.startswith('=?'):
              ...                      # encoded words: unstructured_encoded_word
          tok, *remainder = _wsp_splitter(value, 1)
          if valid_ew and rfc2047_matcher.search(tok):
              tok, *remainder = value.partition('=?')
          vtext = ValueTerminal(tok, 'vtext')
          _validate_xtext(vtext)
          unstructured.append(vtext)
          value = ''.join(remainder)
      return unstructured
  \<close>
  \<open>_wsp_splitter(value, 1)\<close> cuts the value before its first run of blanks and tabs.
\<close>

function unstructured_loop ::
  "grammar \<Rightarrow> token list \<Rightarrow> defect list \<Rightarrow> pystr \<Rightarrow> exn + token list \<times> defect list" where
  "unstructured_loop G unstructured ds v =
     (if v = [] then Inr (unstructured, ds)
      else if hd v \<in> WSP then
        unstructured_loop G (unstructured @ [fst (get_fws v)]) ds (snd (get_fws v))
      else if startswith v [61, 63] then unstructured_encoded_word G unstructured ds v
      else
        (let tok = takeWhile (\<lambda>c. c \<notin> WSP) v in
         if rfc2047_search tok then
           (let tok = partition_before v [61, 63] in
            unstructured_loop G
              (unstructured @ [Terminal ValueTerminal ''vtext'' tok (validate_xtext tok)]) ds
              (drop (length tok) v))
         else
           unstructured_loop G
             (unstructured @ [Terminal ValueTerminal ''vtext'' tok (validate_xtext tok)]) ds
             (dropWhile (\<lambda>c. c \<notin> WSP) v)))"
  by pat_completeness auto

lemma length_dropWhile_hd: "v \<noteq> [] \<Longrightarrow> P (hd v) \<Longrightarrow> length (dropWhile P v) < length v"
  by (cases v) (auto simp: le_imp_less_Suc length_dropWhile_le)

lemma partition_before_nonempty:
  "v \<noteq> [] \<Longrightarrow> \<not> startswith v p \<Longrightarrow> partition_before v p \<noteq> []"
  by (cases v) auto

termination unstructured_loop
proof (relation "measure (\<lambda>(G, u, ds, v). length v)", goal_cases)
  case 1
  show ?case by simp
next
  case (2 G u ds v)
  then have "isspace (hd v)"
    by (auto simp: WSP_def isspace_def)
  with 2 show ?case
    by (simp add: get_fws_def length_dropWhile_hd)
next
  case (3 G u ds v tok tok')
  then show ?case
    by (cases v) (auto simp: partition_before_nonempty)
next
  case (4 G u ds v tok)
  then show ?case
    by (simp add: length_dropWhile_hd)
qed

definition cpython_get_unstructured :: "grammar \<Rightarrow> pystr \<Rightarrow> exn + token list \<times> defect list" where
  "cpython_get_unstructured G v = unstructured_loop G [] [] v"

text \<open>
  \<^verbatim>\<open>
  DOT = ValueTerminal('.', 'dot')
  _non_atom_end_matcher = re.compile(r"[^{}]+".format(
      re.escape(''.join(ATOM_ENDS)))).match
  def get_atext(value):
      m = _non_atom_end_matcher(value)
      if not m:
          raise errors.HeaderParseError(
              "expected atext but found '{}'".format(value))
      atext = m.group()
      value = value[len(atext):]
      atext = ValueTerminal(atext, 'atext')
      _validate_xtext(atext)
      return atext, value
  def get_dot_atom_text(value):
      dot_atom_text = DotAtomText()
      if not value or value[0] in ATOM_ENDS:
          raise errors.HeaderParseError("expected atom at a start of "
              "dot-atom-text but found '{}'".format(value))
      while value and value[0] not in ATOM_ENDS:
          token, value = get_atext(value)
          dot_atom_text.append(token)
          if value and value[0] == '.':
              dot_atom_text.append(DOT)
              value = value[1:]
      if dot_atom_text[-1] is DOT:
          raise errors.HeaderParseError("expected atom at end of dot-atom-text "
              "but found '{}'".format('.'+value))
      return dot_atom_text, value
  \<close>
  \<open>quoted\<close> is the text of a message that ends in a value between single quotes.
\<close>

definition quoted :: "string \<Rightarrow> pystr \<Rightarrow> pystr" where
  "quoted text v = py text @ [39] @ v @ [39]"

definition DOT :: token where
  "DOT = Terminal ValueTerminal ''dot'' [46] []"

definition get_atext :: "pystr \<Rightarrow> exn + token \<times> pystr" where
  "get_atext v =
     (let atext = takeWhile (\<lambda>c. c \<notin> ATOM_ENDS) v in
      if atext = [] then Inl (HeaderParseError (quoted ''expected atext but found '' v))
      else Inr (Terminal ValueTerminal ''atext'' atext (validate_xtext atext),
                drop (length atext) v))"

lemma get_atext_shorter: "get_atext v = Inr (tok, v') \<Longrightarrow> length v' < length v"
  by (cases v) (auto simp: get_atext_def Let_def split: if_splits)

function dot_atom_text_loop :: "token list \<Rightarrow> pystr \<Rightarrow> exn + token list \<times> pystr" where
  "dot_atom_text_loop dot_atom_text v =
     (if v \<noteq> [] \<and> hd v \<notin> ATOM_ENDS then
        (case get_atext v of
           Inl e \<Rightarrow> Inl e
         | Inr (tok, v') \<Rightarrow>
             if v' \<noteq> [] \<and> hd v' = 46
             then dot_atom_text_loop (dot_atom_text @ [tok, DOT]) (tl v')
             else dot_atom_text_loop (dot_atom_text @ [tok]) v')
      else Inr (dot_atom_text, v))"
  by pat_completeness auto

termination dot_atom_text_loop
proof (relation "measure (\<lambda>(acc, v). length v)", goal_cases)
  case 1
  show ?case by simp
next
  case (2 acc v x2 tok v')
  then show ?case
    using get_atext_shorter [of v tok v'] by simp
next
  case (3 acc v x2 tok v')
  then show ?case
    using get_atext_shorter [of v tok v'] by simp
qed

definition get_dot_atom_text :: "pystr \<Rightarrow> exn + token \<times> pystr" where
  "get_dot_atom_text v =
     (if v = [] \<or> hd v \<in> ATOM_ENDS then
        Inl (HeaderParseError
               (quoted ''expected atom at a start of dot-atom-text but found '' v))
      else
        (case dot_atom_text_loop [] v of
           Inl e \<Rightarrow> Inl e
         | Inr (dot_atom_text, v') \<Rightarrow>
             if dot_atom_text = [] then Inl IndexError
             else if last dot_atom_text = DOT then
               Inl (HeaderParseError
                      (quoted ''expected atom at end of dot-atom-text but found '' (46 # v')))
             else Inr (TokenList ''DotAtomText'' ''dot-atom-text'' dot_atom_text [], v')))"

text \<open>
  \<^verbatim>\<open>
  def get_obs_local_part(value):
      obs_local_part = ObsLocalPart()
      last_non_ws_was_dot = False
      while value and (value[0]=='\\' or value[0] not in PHRASE_ENDS):
          ...                          # words and dots: obs_local_part_words
      if (obs_local_part[0].token_type == 'dot' or
              obs_local_part[0].token_type=='cfws' and
              obs_local_part[1].token_type=='dot'):
          ...
  \<close>
  When the loop is not entered the list is empty, and \<open>obs_local_part[0]\<close> raises
  \<open>IndexError\<close>: this is the crash of CPython issue 105802.
\<close>

definition get_obs_local_part :: "grammar \<Rightarrow> pystr \<Rightarrow> exn + token \<times> pystr" where
  "get_obs_local_part G v =
     (if v \<noteq> [] \<and> (hd v = 92 \<or> hd v \<notin> PHRASE_ENDS) then obs_local_part_words G v
      else Inl IndexError)"

text \<open>
  \<^verbatim>\<open>
  def get_msg_id(value):
      msg_id = MsgID()
      if value and value[0] in CFWS_LEADER:
          token, value = get_cfws(value)
          msg_id.append(token)
      if not value or value[0] != '<':
          raise errors.HeaderParseError(
              "expected msg-id but found '{}'".format(value))
      msg_id.append(ValueTerminal('<', 'msg-id-start'))
      value = value[1:]
      # Parse id-left.
      try:
          token, value = get_dot_atom_text(value)
      except errors.HeaderParseError:
          try:
              # obs-id-left is same as local-part of add-spec.
              token, value = get_obs_local_part(value)
              msg_id.defects.append(errors.ObsoleteHeaderDefect(
                  "obsolete id-left in msg-id"))
          except errors.HeaderParseError:
              raise errors.HeaderParseError(
                  "expected dot-atom-text or obs-id-left"
                  " but found '{}'".format(value))
      msg_id.append(token)
      if not value or value[0] != '@':
          msg_id.defects.append(errors.InvalidHeaderDefect(
              "msg-id with no id-right"))
          # Even though there is no id-right, if the local part
          # ends with `>` let's just parse it too and return
          # along with the defect.
          if value and value[0] == '>':
              msg_id.append(ValueTerminal('>', 'msg-id-end'))
              value = value[1:]
          return msg_id, value
      msg_id.append(ValueTerminal('@', 'address-at-symbol'))
      value = value[1:]
      # Parse id-right.
      try:
          token, value = get_dot_atom_text(value)
      except errors.HeaderParseError:
          try:
              token, value = get_no_fold_literal(value)
          except errors.HeaderParseError as e:
              try:
                  token, value = get_domain(value)
                  msg_id.defects.append(errors.ObsoleteHeaderDefect(
                      "obsolete id-right in msg-id"))
              except errors.HeaderParseError:
                  raise errors.HeaderParseError(
                      "expected dot-atom-text, no-fold-literal or obs-id-right"
                      " but found '{}'".format(value))
      msg_id.append(token)
      if value and value[0] == '>':
          value = value[1:]
      else:
          msg_id.defects.append(errors.InvalidHeaderDefect(
              "missing trailing '>' on msg-id"))
      msg_id.append(ValueTerminal('>', 'msg-id-end'))
      if value and value[0] in CFWS_LEADER:
          token, value = get_cfws(value)
          msg_id.append(token)
      return msg_id, value
  \<close>
  The function is cut in three: up to \<open><\<close>, \<open>id-left\<close>, \<open>id-right\<close>. Each part hands the
  elements and the defects of \<open>msg_id\<close> to the next. \<open>HeaderParseError\<close> stands for the
  class and its subclasses, which is what \<open>except errors.HeaderParseError\<close> catches.
\<close>

definition MsgID :: "token list \<Rightarrow> defect list \<Rightarrow> token" where
  "MsgID xs ds = TokenList ''MsgID'' ''msg-id'' xs ds"

definition id_right_token :: "grammar \<Rightarrow> pystr \<Rightarrow> exn + (token \<times> pystr) \<times> defect list" where
  "id_right_token G v =
     (case get_dot_atom_text v of
        Inr r \<Rightarrow> Inr (r, [])
      | Inl (HeaderParseError m) \<Rightarrow>
          (case get_no_fold_literal G v of
             Inr r \<Rightarrow> Inr (r, [])
           | Inl (HeaderParseError m') \<Rightarrow>
               (case get_domain G v of
                  Inr r \<Rightarrow>
                    Inr (r, [ObsoleteHeaderDefect (Text (py ''obsolete id-right in msg-id''))])
                | Inl (HeaderParseError m'') \<Rightarrow>
                    Inl (HeaderParseError
                      (quoted
                        ''expected dot-atom-text, no-fold-literal or obs-id-right but found '' v))
                | Inl e \<Rightarrow> Inl e)
           | Inl e \<Rightarrow> Inl e)
      | Inl e \<Rightarrow> Inl e)"

definition msg_id_right ::
  "grammar \<Rightarrow> token list \<Rightarrow> defect list \<Rightarrow> pystr \<Rightarrow> exn + token \<times> pystr" where
  "msg_id_right G msg_id ds v =
     (case id_right_token G v of
        Inl e \<Rightarrow> Inl e
      | Inr ((tok, v1), ds1) \<Rightarrow>
          (let closed = (v1 \<noteq> [] \<and> hd v1 = 62);
               v2 = (if closed then tl v1 else v1);
               ds2 = ds @ ds1 @
                 (if closed then []
                  else [InvalidHeaderDefect
                          (Text (py ''missing trailing '' @ [39, 62, 39] @ py '' on msg-id''))]);
               msg_id2 = msg_id @ [tok, Terminal ValueTerminal ''msg-id-end'' [62] []]
           in if v2 \<noteq> [] \<and> hd v2 \<in> CFWS_LEADER then
                (case get_cfws G v2 of
                   Inl e \<Rightarrow> Inl e
                 | Inr (cfws, v3) \<Rightarrow> Inr (MsgID (msg_id2 @ [cfws]) ds2, v3))
              else Inr (MsgID msg_id2 ds2, v2)))"

definition id_left_token :: "grammar \<Rightarrow> pystr \<Rightarrow> exn + (token \<times> pystr) \<times> defect list" where
  "id_left_token G v =
     (case get_dot_atom_text v of
        Inr r \<Rightarrow> Inr (r, [])
      | Inl (HeaderParseError m) \<Rightarrow>
          (case get_obs_local_part G v of
             Inr r \<Rightarrow> Inr (r, [ObsoleteHeaderDefect (Text (py ''obsolete id-left in msg-id''))])
           | Inl (HeaderParseError m') \<Rightarrow>
               Inl (HeaderParseError
                      (quoted ''expected dot-atom-text or obs-id-left but found '' v))
           | Inl e \<Rightarrow> Inl e)
      | Inl e \<Rightarrow> Inl e)"

definition msg_id_left :: "grammar \<Rightarrow> token list \<Rightarrow> pystr \<Rightarrow> exn + token \<times> pystr" where
  "msg_id_left G msg_id v =
     (case id_left_token G v of
        Inl e \<Rightarrow> Inl e
      | Inr ((tok, v1), ds) \<Rightarrow>
          if v1 = [] \<or> hd v1 \<noteq> 64 then
            (let ds1 = ds @ [InvalidHeaderDefect (Text (py ''msg-id with no id-right''))] in
             if v1 \<noteq> [] \<and> hd v1 = 62
             then Inr (MsgID (msg_id @ [tok, Terminal ValueTerminal ''msg-id-end'' [62] []]) ds1,
                       tl v1)
             else Inr (MsgID (msg_id @ [tok]) ds1, v1))
          else
            msg_id_right G
              (msg_id @ [tok, Terminal ValueTerminal ''address-at-symbol'' [64] []]) ds (tl v1))"

definition get_msg_id :: "grammar \<Rightarrow> pystr \<Rightarrow> exn + token \<times> pystr" where
  "get_msg_id G v =
     (case (if v \<noteq> [] \<and> hd v \<in> CFWS_LEADER
            then (case get_cfws G v of
                    Inl e \<Rightarrow> Inl e
                  | Inr (cfws, v1) \<Rightarrow> Inr ([cfws], v1))
            else Inr ([], v)) of
        Inl e \<Rightarrow> Inl e
      | Inr (msg_id, v1) \<Rightarrow>
          if v1 = [] \<or> hd v1 \<noteq> 60
          then Inl (HeaderParseError (quoted ''expected msg-id but found '' v1))
          else msg_id_left G (msg_id @ [Terminal ValueTerminal ''msg-id-start'' [60] []]) (tl v1))"

text \<open>
  \<^verbatim>\<open>
  def parse_message_id(value):
      message_id = MessageID()
      try:
          token, value = get_msg_id(value)
          message_id.append(token)
      except errors.HeaderParseError as ex:
          token = get_unstructured(value)
          message_id = InvalidMessageID(token)
          message_id.defects.append(
              errors.InvalidHeaderDefect("Invalid msg-id: {!r}".format(ex)))
      else:
          # Value after parsing a valid msg_id should be None.
          if value:
              message_id.defects.append(errors.InvalidHeaderDefect(
                  "Unexpected {!r}".format(value)))
      return message_id
  \<close>
\<close>

definition parse_message_id :: "grammar \<Rightarrow> pystr \<Rightarrow> exn + token" where
  "parse_message_id G v =
     (case get_msg_id G v of
        Inr (tok, v1) \<Rightarrow>
          Inr (TokenList ''MessageID'' ''message-id'' [tok]
                 (if v1 \<noteq> [] then [InvalidHeaderDefect (TextRepr (py ''Unexpected '') v1)]
                  else []))
      | Inl (HeaderParseError m) \<Rightarrow>
          (case cpython_get_unstructured G v of
             Inl e \<Rightarrow> Inl e
           | Inr (xs, ds) \<Rightarrow>
               Inr (TokenList ''InvalidMessageID'' ''invalid-message-id'' xs
                      [InvalidHeaderDefect
                         (TextReprExn (py ''Invalid msg-id: '') (HeaderParseError m))]))
      | Inl e \<Rightarrow> Inl e)"

text \<open>
  The email package with these grammars, and the instance of it in which every
  collaborator that is not embedded raises (the codecs return their argument). The
  concrete headers below are built without a call to any of them.
\<close>

definition cpython :: "grammar \<Rightarrow> lib" where
  "cpython G =
     \<lparr>lower_non_ascii = lower_non_ascii G,
      decode_replace = decode_replace G,
      other_class_new = other_class_new G,
      parser_parse_message_id = parse_message_id G,
      parser_get_unstructured = cpython_get_unstructured G\<rparr>"

definition not_embedded :: grammar where
  "not_embedded =
     \<lparr>lower_non_ascii = (\<lambda>s. s),
      decode_replace = (\<lambda>s. s),
      other_class_new = (\<lambda>c name v. Inl (OtherError ''not embedded'')),
      get_cfws = (\<lambda>v. Inl (OtherError ''not embedded'')),
      obs_local_part_words = (\<lambda>v. Inl (OtherError ''not embedded'')),
      get_no_fold_literal = (\<lambda>v. Inl (OtherError ''not embedded'')),
      get_domain = (\<lambda>v. Inl (OtherError ''not embedded'')),
      unstructured_encoded_word = (\<lambda>xs ds v. Inl (OtherError ''not embedded''))\<rparr>"

section \<open>Evaluation on the values of the claims\<close>

text \<open>
  The grammars are run by the simplifier. None of these values reaches a sub-grammar that
  is not embedded, so each result holds for every \<open>grammar\<close>.
\<close>

lemmas msg_id_defs = parse_message_id_def get_msg_id_def msg_id_left_def msg_id_right_def
  id_left_token_def id_right_token_def get_dot_atom_text_def get_atext_def get_obs_local_part_def
  validate_xtext_def has_surrogates_def is_surrogate_def MsgID_def DOT_def quoted_def
  ATOM_ENDS_def SPECIALS_def WSP_def CFWS_LEADER_def PHRASE_ENDS_def py_def Let_def

lemmas unstructured_defs = cpython_get_unstructured_def get_fws_def startswith_def
  rfc2047_match_def validate_xtext_def has_surrogates_def is_surrogate_def WSP_def py_def
  Let_def isspace_def

lemma parse_message_id_open_bracket: "parse_message_id G (py ''<['') = Inl IndexError"
  by (simp add: msg_id_defs)

lemma parse_message_id_a_paren_b:
  "parse_message_id G (py ''<a(b'') =
     Inr (TokenList ''MessageID'' ''message-id''
       [TokenList ''MsgID'' ''msg-id''
          [Terminal ValueTerminal ''msg-id-start'' (py ''<'') [],
           TokenList ''DotAtomText'' ''dot-atom-text''
             [Terminal ValueTerminal ''atext'' (py ''a'') []] []]
          [InvalidHeaderDefect (Text (py ''msg-id with no id-right''))]]
       [InvalidHeaderDefect (TextRepr (py ''Unexpected '') (py ''(b''))])"
  by (simp add: msg_id_defs)

lemma parse_message_id_example:
  "parse_message_id G (py ''<abc123@example.com>'') =
     Inr (TokenList ''MessageID'' ''message-id''
       [TokenList ''MsgID'' ''msg-id''
          [Terminal ValueTerminal ''msg-id-start'' (py ''<'') [],
           TokenList ''DotAtomText'' ''dot-atom-text''
             [Terminal ValueTerminal ''atext'' (py ''abc123'') []] [],
           Terminal ValueTerminal ''address-at-symbol'' (py ''@'') [],
           TokenList ''DotAtomText'' ''dot-atom-text''
             [Terminal ValueTerminal ''atext'' (py ''example'') [],
              Terminal ValueTerminal ''dot'' (py ''.'') [],
              Terminal ValueTerminal ''atext'' (py ''com'') []] [],
           Terminal ValueTerminal ''msg-id-end'' (py ''>'') []]
          []]
       [])"
  by (simp add: msg_id_defs)

lemma parse_message_id_lone_surrogate:
  "parse_message_id G (py ''<a@b>'' @ [55296]) =
     Inr (TokenList ''MessageID'' ''message-id''
       [TokenList ''MsgID'' ''msg-id''
          [Terminal ValueTerminal ''msg-id-start'' (py ''<'') [],
           TokenList ''DotAtomText'' ''dot-atom-text''
             [Terminal ValueTerminal ''atext'' (py ''a'') []] [],
           Terminal ValueTerminal ''address-at-symbol'' (py ''@'') [],
           TokenList ''DotAtomText'' ''dot-atom-text''
             [Terminal ValueTerminal ''atext'' (py ''b'') []] [],
           Terminal ValueTerminal ''msg-id-end'' (py ''>'') []]
          []]
       [InvalidHeaderDefect (TextRepr (py ''Unexpected '') [55296])])"
  by (simp add: msg_id_defs)

lemma get_unstructured_open_bracket:
  "cpython_get_unstructured G (py ''<['') =
     Inr ([Terminal ValueTerminal ''vtext'' (py ''<['') []], [])"
  by (simp add: unstructured_defs)

lemma get_unstructured_a_paren_b:
  "cpython_get_unstructured G (py ''<a(b'') =
     Inr ([Terminal ValueTerminal ''vtext'' (py ''<a(b'') []], [])"
  by (simp add: unstructured_defs)


lemma get_unstructured_lone_surrogate:
  "cpython_get_unstructured G (py ''<a@b>'' @ [55296]) =
     Inr ([Terminal ValueTerminal ''vtext'' (py ''<a@b>'' @ [55296])
            [UndecodableBytesDefect
               (Text (py ''Non-ASCII characters found in header token''))]], [])"
  by (simp add: unstructured_defs)

lemma get_unstructured_two_words:
  "cpython_get_unstructured G (py ''Hello  world'') =
     Inr ([Terminal ValueTerminal ''vtext'' (py ''Hello'') [],
           Terminal WhiteSpaceTerminal ''fws'' (py ''  '') [],
           Terminal ValueTerminal ''vtext'' (py ''world'') []], [])"
  by (simp add: unstructured_defs)

lemma lower_message_id: "lower L (py ''message-id'') = py ''message-id''"
  by (simp add: lower_def py_def ascii_lower_def)

lemma lower_Message_ID: "lower L (py ''Message-ID'') = py ''message-id''"
  by (simp add: lower_def py_def ascii_lower_def)

lemma lower_x_note: "lower L (py ''X-Note'') = py ''x-note''"
  by (simp add: lower_def py_def ascii_lower_def)

lemma relay_registry_message_id:
  "registry relay_header_factory (py ''message-id'') = Some RelayMessageIDHeader"
  by (simp add: relay_header_factory_def)

lemma relay_registry_x_note: "registry relay_header_factory (py ''x-note'') = None"
  by (simp add: relay_header_factory_def HeaderRegistry_init_def default_header_map_def py_def)

lemma parse_message_id_leading_blank:
  "parse_message_id not_embedded (py '' <a@b>'') = Inl (OtherError ''not embedded'')"
  by (simp add: parse_message_id_def get_msg_id_def CFWS_LEADER_def WSP_def py_def
        not_embedded_def)


section \<open>The parse and the construction, case by case\<close>

lemmas parse_defs = RelayMessageIDHeader_parse_def MessageIDHeader_parse_def
  UnstructuredHeader_parse_def store_parse_tree_def get_unstructured_def fallback_tree_def
  InvalidMessageID_def defects_append_def

lemma getitem_relay_message_id:
  "lower L name = py ''message-id'' \<Longrightarrow>
   HeaderRegistry_getitem L relay_header_factory name = RelayMessageIDHeader"
  by (simp add: HeaderRegistry_getitem_def relay_registry_message_id)

lemma tok_str_fallback_tree:
  "get_unstructured L v = Inr tok \<Longrightarrow> tok_str (fallback_tree v tok) = tok_str tok"
  by (auto simp: parse_defs split: sum.splits)

lemma all_defects_fallback_tree:
  "all_defects (fallback_tree v tok) = fallback_defect v # concat (map all_defects (items tok))"
  by (simp add: parse_defs)

lemma relay_parse_fallback:
  "parser_parse_message_id L v = Inl IndexError \<Longrightarrow> get_unstructured L v = Inr tok \<Longrightarrow>
   RelayMessageIDHeader_parse L v kw = store_parse_tree (fallback_tree v tok) kw"
  by (simp add: RelayMessageIDHeader_parse_def)

lemma relay_parse_success:
  "parser_parse_message_id L v = Inr t \<Longrightarrow>
   RelayMessageIDHeader_parse L v kw = store_parse_tree t kw"
  by (simp add: RelayMessageIDHeader_parse_def)

lemma relay_parse_other:
  "parser_parse_message_id L v = Inl e \<Longrightarrow> e \<noteq> IndexError \<Longrightarrow>
   RelayMessageIDHeader_parse L v kw = Inl e"
  by (cases e) (simp_all add: RelayMessageIDHeader_parse_def)

lemma unstructured_new:
  "class_new L UnstructuredHeader name v =
     (case get_unstructured L v of
        Inl e \<Rightarrow> Inl e
      | Inr t \<Rightarrow>
          if list_ex (\<lambda>c. is_surrogate c \<and> \<not> is_escaped_byte c) (tok_str t)
          then Inl UnicodeEncodeError
          else Inr \<lparr>h_name = name,
                    h_decoded = (if has_surrogates (tok_str t)
                                 then decode_replace L (tok_str t) else tok_str t),
                    h_parse_tree = t, h_defects = []\<rparr>)"
  by (auto simp: BaseHeader_new_def UnstructuredHeader_parse_def sanitize_def
        has_surrogates_def list_ex_iff split: sum.splits)

lemma cpython_fields:
  "parser_parse_message_id (cpython G) = parse_message_id G"
  "parser_get_unstructured (cpython G) = cpython_get_unstructured G"
  "decode_replace (cpython G) = decode_replace G"
  by (simp_all add: cpython_def)

lemma get_unstructured_cpython:
  "cpython_get_unstructured G v = Inr (xs, ds) \<Longrightarrow>
   get_unstructured (cpython G) v = Inr (TokenList ''UnstructuredTokenList'' ''unstructured'' xs ds)"
  by (simp add: get_unstructured_def cpython_fields)

lemma relay_call_message_id:
  "lower L name = py ''message-id'' \<Longrightarrow>
   RelayHeaderRegistry_call L relay_header_factory name v =
     (case BaseHeader_new L (RelayMessageIDHeader_parse L) name v of
        Inl e \<Rightarrow> Inl e
      | Inr b \<Rightarrow>
          (case class_new L UnstructuredHeader name v of
             Inl e \<Rightarrow> Inl e
           | Inr u \<Rightarrow> Inr (base_header.extend b \<lparr>as_unstructured = Some u\<rparr>)))"
  by (simp add: RelayHeaderRegistry_call_def HeaderRegistry_call_def getitem_relay_message_id)

lemma call_message_id:
  "lower L name = py ''message-id'' \<Longrightarrow>
   HeaderRegistry_call L relay_header_factory name v =
     BaseHeader_new L (RelayMessageIDHeader_parse L) name v"
  by (simp add: HeaderRegistry_call_def getitem_relay_message_id)

lemma relay_new_fallback:
  "parser_parse_message_id L v = Inl IndexError \<Longrightarrow> get_unstructured L v = Inr tok \<Longrightarrow>
   \<not> has_surrogates (tok_str tok) \<Longrightarrow>
   BaseHeader_new L (RelayMessageIDHeader_parse L) name v =
     Inr \<lparr>h_name = name, h_decoded = tok_str tok, h_parse_tree = fallback_tree v tok,
          h_defects = fallback_defect v # concat (map all_defects (items tok))\<rparr>"
  by (simp add: BaseHeader_new_def relay_parse_fallback store_parse_tree_def
        tok_str_fallback_tree all_defects_fallback_tree)

lemma relay_new_success:
  "parser_parse_message_id L v = Inr t \<Longrightarrow> \<not> has_surrogates (tok_str t) \<Longrightarrow>
   BaseHeader_new L (RelayMessageIDHeader_parse L) name v =
     Inr \<lparr>h_name = name, h_decoded = tok_str t, h_parse_tree = t, h_defects = all_defects t\<rparr>"
  by (simp add: BaseHeader_new_def relay_parse_success store_parse_tree_def)


lemma unstructured_new_plain:
  "get_unstructured L v = Inr t \<Longrightarrow> \<not> has_surrogates (tok_str t) \<Longrightarrow>
   class_new L UnstructuredHeader name v =
     Inr \<lparr>h_name = name, h_decoded = tok_str t, h_parse_tree = t, h_defects = []\<rparr>"
  by (simp add: BaseHeader_new_def UnstructuredHeader_parse_def)

lemma no_surrogates_ascii: "list_all (\<lambda>c. c < 128) s \<Longrightarrow> \<not> has_surrogates s"
  by (auto simp: has_surrogates_def is_surrogate_def list_all_iff list_ex_iff)

lemma construct_open_bracket:
  "RelayHeaderRegistry_call (cpython G) relay_header_factory (py ''message-id'') (py ''<['') =
     Inr \<lparr>h_name = py ''message-id'', h_decoded = py ''<['',
          h_parse_tree =
            TokenList ''InvalidMessageID'' ''invalid-message-id''
              [Terminal ValueTerminal ''vtext'' (py ''<['') []]
              [fallback_defect (py ''<['')],
          h_defects = [fallback_defect (py ''<['')],
          as_unstructured = Some
            \<lparr>h_name = py ''message-id'', h_decoded = py ''<['',
             h_parse_tree =
               TokenList ''UnstructuredTokenList'' ''unstructured''
                 [Terminal ValueTerminal ''vtext'' (py ''<['') []] [],
             h_defects = []\<rparr>\<rparr>"
proof -
  let ?tok = "TokenList ''UnstructuredTokenList'' ''unstructured''
                [Terminal ValueTerminal ''vtext'' (py ''<['') []] []"
  have u: "get_unstructured (cpython G) (py ''<['') = Inr ?tok"
    by (rule get_unstructured_cpython) (rule get_unstructured_open_bracket)
  have s: "\<not> has_surrogates (tok_str ?tok)"
    by (rule no_surrogates_ascii) (simp add: py_def)
  have c: "parser_parse_message_id (cpython G) (py ''<['') = Inl IndexError"
    by (simp add: cpython_fields parse_message_id_open_bracket)
  show ?thesis
    by (simp add: relay_call_message_id [OF lower_message_id] relay_new_fallback [OF c u s]
          unstructured_new_plain [OF u s] base_header.extend_def
          fallback_tree_def InvalidMessageID_def defects_append_def
          del: class_new.simps)
qed

lemma construct_a_paren_b:
  "RelayHeaderRegistry_call (cpython G) relay_header_factory (py ''message-id'') (py ''<a(b'') =
     Inr \<lparr>h_name = py ''message-id'', h_decoded = py ''<a'',
          h_parse_tree =
            TokenList ''MessageID'' ''message-id''
              [TokenList ''MsgID'' ''msg-id''
                 [Terminal ValueTerminal ''msg-id-start'' (py ''<'') [],
                  TokenList ''DotAtomText'' ''dot-atom-text''
                    [Terminal ValueTerminal ''atext'' (py ''a'') []] []]
                 [InvalidHeaderDefect (Text (py ''msg-id with no id-right''))]]
              [InvalidHeaderDefect (TextRepr (py ''Unexpected '') (py ''(b''))],
          h_defects =
            [InvalidHeaderDefect (TextRepr (py ''Unexpected '') (py ''(b'')),
             InvalidHeaderDefect (Text (py ''msg-id with no id-right''))],
          as_unstructured = Some
            \<lparr>h_name = py ''message-id'', h_decoded = py ''<a(b'',
             h_parse_tree =
               TokenList ''UnstructuredTokenList'' ''unstructured''
                 [Terminal ValueTerminal ''vtext'' (py ''<a(b'') []] [],
             h_defects = []\<rparr>\<rparr>"
proof -
  let ?tok = "TokenList ''UnstructuredTokenList'' ''unstructured''
                [Terminal ValueTerminal ''vtext'' (py ''<a(b'') []] []"
  let ?t = "TokenList ''MessageID'' ''message-id''
              [TokenList ''MsgID'' ''msg-id''
                 [Terminal ValueTerminal ''msg-id-start'' (py ''<'') [],
                  TokenList ''DotAtomText'' ''dot-atom-text''
                    [Terminal ValueTerminal ''atext'' (py ''a'') []] []]
                 [InvalidHeaderDefect (Text (py ''msg-id with no id-right''))]]
              [InvalidHeaderDefect (TextRepr (py ''Unexpected '') (py ''(b''))]"
  have u: "get_unstructured (cpython G) (py ''<a(b'') = Inr ?tok"
    by (rule get_unstructured_cpython) (rule get_unstructured_a_paren_b)
  have su: "\<not> has_surrogates (tok_str ?tok)"
    by (rule no_surrogates_ascii) (simp add: py_def)
  have c: "parser_parse_message_id (cpython G) (py ''<a(b'') = Inr ?t"
    by (simp add: cpython_fields parse_message_id_a_paren_b)
  have st: "\<not> has_surrogates (tok_str ?t)"
    by (rule no_surrogates_ascii) (simp add: py_def)
  show ?thesis
    unfolding relay_call_message_id [OF lower_message_id] relay_new_success [OF c st]
      unstructured_new_plain [OF u su]
    by (simp add: base_header.extend_def py_def)
qed


lemma primary_lone_surrogate:
  "HeaderRegistry_call (cpython G) relay_header_factory (py ''message-id'')
     (py ''<a@b>'' @ [55296]) =
     Inr \<lparr>h_name = py ''message-id'', h_decoded = py ''<a@b>'',
          h_parse_tree =
            TokenList ''MessageID'' ''message-id''
              [TokenList ''MsgID'' ''msg-id''
                 [Terminal ValueTerminal ''msg-id-start'' (py ''<'') [],
                  TokenList ''DotAtomText'' ''dot-atom-text''
                    [Terminal ValueTerminal ''atext'' (py ''a'') []] [],
                  Terminal ValueTerminal ''address-at-symbol'' (py ''@'') [],
                  TokenList ''DotAtomText'' ''dot-atom-text''
                    [Terminal ValueTerminal ''atext'' (py ''b'') []] [],
                  Terminal ValueTerminal ''msg-id-end'' (py ''>'') []]
                 []]
              [InvalidHeaderDefect (TextRepr (py ''Unexpected '') [55296])],
          h_defects = [InvalidHeaderDefect (TextRepr (py ''Unexpected '') [55296])]\<rparr>"
proof -
  let ?t = "TokenList ''MessageID'' ''message-id''
              [TokenList ''MsgID'' ''msg-id''
                 [Terminal ValueTerminal ''msg-id-start'' (py ''<'') [],
                  TokenList ''DotAtomText'' ''dot-atom-text''
                    [Terminal ValueTerminal ''atext'' (py ''a'') []] [],
                  Terminal ValueTerminal ''address-at-symbol'' (py ''@'') [],
                  TokenList ''DotAtomText'' ''dot-atom-text''
                    [Terminal ValueTerminal ''atext'' (py ''b'') []] [],
                  Terminal ValueTerminal ''msg-id-end'' (py ''>'') []]
                 []]
              [InvalidHeaderDefect (TextRepr (py ''Unexpected '') [55296])]"
  have c: "parser_parse_message_id (cpython G) (py ''<a@b>'' @ [55296]) = Inr ?t"
    by (simp add: cpython_fields parse_message_id_lone_surrogate)
  have st: "\<not> has_surrogates (tok_str ?t)"
    by (rule no_surrogates_ascii) (simp add: py_def)
  show ?thesis
    unfolding call_message_id [OF lower_message_id] relay_new_success [OF c st]
    by (simp add: py_def)
qed

lemma view_lone_surrogate:
  "class_new (cpython G) UnstructuredHeader name (py ''<a@b>'' @ [55296]) =
     Inl UnicodeEncodeError"
proof -
  have u: "get_unstructured (cpython G) (py ''<a@b>'' @ [55296]) =
             Inr (TokenList ''UnstructuredTokenList'' ''unstructured''
                    [Terminal ValueTerminal ''vtext'' (py ''<a@b>'' @ [55296])
                       [UndecodableBytesDefect
                          (Text (py ''Non-ASCII characters found in header token''))]] [])"
    by (rule get_unstructured_cpython) (rule get_unstructured_lone_surrogate)
  show ?thesis
    unfolding unstructured_new u
    by (simp add: py_def is_surrogate_def is_escaped_byte_def)
qed

lemma construct_lone_surrogate:
  "RelayHeaderRegistry_call (cpython G) relay_header_factory (py ''message-id'')
     (py ''<a@b>'' @ [55296]) = Inl UnicodeEncodeError"
  unfolding RelayHeaderRegistry_call_def primary_lone_surrogate view_lone_surrogate
  by simp

lemma construct_x_note:
  "RelayHeaderRegistry_call (cpython G) relay_header_factory (py ''X-Note'')
     (py ''Hello  world'') =
     Inr \<lparr>h_name = py ''X-Note'', h_decoded = py ''Hello  world'',
          h_parse_tree =
            TokenList ''UnstructuredTokenList'' ''unstructured''
              [Terminal ValueTerminal ''vtext'' (py ''Hello'') [],
               Terminal WhiteSpaceTerminal ''fws'' (py ''  '') [],
               Terminal ValueTerminal ''vtext'' (py ''world'') []] [],
          h_defects = [],
          as_unstructured = Some
            \<lparr>h_name = py ''X-Note'', h_decoded = py ''Hello  world'',
             h_parse_tree =
               TokenList ''UnstructuredTokenList'' ''unstructured''
                 [Terminal ValueTerminal ''vtext'' (py ''Hello'') [],
                  Terminal WhiteSpaceTerminal ''fws'' (py ''  '') [],
                  Terminal ValueTerminal ''vtext'' (py ''world'') []] [],
             h_defects = []\<rparr>\<rparr>"
proof -
  let ?tok = "TokenList ''UnstructuredTokenList'' ''unstructured''
              [Terminal ValueTerminal ''vtext'' (py ''Hello'') [],
               Terminal WhiteSpaceTerminal ''fws'' (py ''  '') [],
               Terminal ValueTerminal ''vtext'' (py ''world'') []] []"
  have u: "get_unstructured (cpython G) (py ''Hello  world'') = Inr ?tok"
    by (rule get_unstructured_cpython) (rule get_unstructured_two_words)
  have su: "\<not> has_surrogates (tok_str ?tok)"
    by (rule no_surrogates_ascii) (simp add: py_def)
  have g: "HeaderRegistry_getitem (cpython G) relay_header_factory (py ''X-Note'') =
             UnstructuredHeader"
    unfolding HeaderRegistry_getitem_def lower_x_note relay_registry_x_note
    by (simp add: relay_header_factory_def HeaderRegistry_init_def)
  have n: "class_new (cpython G) UnstructuredHeader (py ''X-Note'') (py ''Hello  world'') =
             Inr \<lparr>h_name = py ''X-Note'', h_decoded = tok_str ?tok, h_parse_tree = ?tok,
                  h_defects = []\<rparr>"
    by (rule unstructured_new_plain [OF u su])
  show ?thesis
    unfolding RelayHeaderRegistry_call_def HeaderRegistry_call_def g n
    by (simp add: base_header.extend_def py_def)
qed

lemma relay_parse_open_bracket:
  "RelayMessageIDHeader_parse (cpython G) (py ''<['')
     \<lparr>kw_parse_tree = None, kw_decoded = None, kw_defects = Some []\<rparr> =
   Inr \<lparr>kw_parse_tree = Some (fallback_tree (py ''<['')
            (TokenList ''UnstructuredTokenList'' ''unstructured''
               [Terminal ValueTerminal ''vtext'' (py ''<['') []] [])),
        kw_decoded = Some (py ''<[''),
        kw_defects = Some [fallback_defect (py ''<['')]\<rparr>"
proof -
  have c: "parser_parse_message_id (cpython G) (py ''<['') = Inl IndexError"
    by (simp add: cpython_fields parse_message_id_open_bracket)
  have u: "get_unstructured (cpython G) (py ''<['') =
             Inr (TokenList ''UnstructuredTokenList'' ''unstructured''
                    [Terminal ValueTerminal ''vtext'' (py ''<['') []] [])"
    by (rule get_unstructured_cpython) (rule get_unstructured_open_bracket)
  show ?thesis
    unfolding relay_parse_fallback [OF c u]
    by (simp add: store_parse_tree_def fallback_tree_def InvalidMessageID_def
          defects_append_def)
qed

lemma relay_parse_example:
  "\<exists>kw'. RelayMessageIDHeader_parse (cpython G) (py ''<abc123@example.com>'')
     \<lparr>kw_parse_tree = None, kw_decoded = None, kw_defects = Some []\<rparr> = Inr kw'"
  by (simp add: relay_parse_success cpython_fields parse_message_id_example
        store_parse_tree_def)

text \<open>
  \<open>get_unstructured\<close> returns on every value without the marker \<open>=?\<close> of an encoded word:
  no index is read out of range and no sub-grammar is called.
\<close>

lemma startswith_nonempty: "startswith s p \<Longrightarrow> p \<noteq> [] \<Longrightarrow> s \<noteq> []"
  by (auto simp: startswith_def)

lemma contains_drop: "contains (drop n s) p \<Longrightarrow> p \<noteq> [] \<Longrightarrow> contains s p"
proof (induction s arbitrary: n)
  case Nil
  then show ?case by simp
next
  case (Cons c s)
  then show ?case by (cases n) auto
qed

lemma contains_dropWhile: "contains (dropWhile P s) p \<Longrightarrow> p \<noteq> [] \<Longrightarrow> contains s p"
  using contains_drop [of "length (takeWhile P s)" s p] by (simp add: dropWhile_eq_drop)

lemma startswith_takeWhile: "startswith (takeWhile P s) p \<Longrightarrow> startswith s p"
  unfolding startswith_def
  by (metis append_eq_conv_conj append_take_drop_id takeWhile_dropWhile_id append.assoc)

lemma contains_takeWhile: "contains (takeWhile P s) p \<Longrightarrow> p \<noteq> [] \<Longrightarrow> contains s p"
proof (induction s)
  case Nil
  then show ?case by simp
next
  case (Cons c s)
  show ?case
  proof (cases "P c")
    case False
    with Cons.prems show ?thesis by simp
  next
    case True
    with Cons.prems have "startswith (takeWhile P (c # s)) p \<or> contains (takeWhile P s) p"
      by simp
    then show ?thesis
      using startswith_takeWhile [of P "c # s" p] Cons.IH Cons.prems(2) by auto
  qed
qed

lemma rfc2047_search_contains: "rfc2047_search s \<Longrightarrow> contains s [61, 63]"
  by (induction s) (auto simp: rfc2047_match_def)

lemma unstructured_loop_total:
  "\<not> contains v [61, 63] \<Longrightarrow> \<exists>r. unstructured_loop G acc ds v = Inr r"
proof (induction G acc ds v rule: unstructured_loop.induct)
  case (1 G unstructured ds v)
  show ?case
  proof (cases "v = []")
    case True
    then show ?thesis by (subst unstructured_loop.simps) simp
  next
    case False
    note ne = this
    show ?thesis
    proof (cases "hd v \<in> WSP")
      case True
      have "\<not> contains (snd (get_fws v)) [61, 63]"
        using "1.prems" contains_dropWhile [of isspace v "[61, 63]"] by (auto simp: get_fws_def)
      from "1.IH"(1) [OF ne True this] ne True show ?thesis
        by (subst unstructured_loop.simps) simp
    next
      case False
      note nw = this
      have ns: "\<not> startswith v [61, 63]"
        using "1.prems" ne by (cases v) auto
      have nr: "\<not> rfc2047_search (takeWhile (\<lambda>c. c \<notin> WSP) v)"
        using "1.prems" rfc2047_search_contains contains_takeWhile by blast
      have "\<not> contains (dropWhile (\<lambda>c. c \<notin> WSP) v) [61, 63]"
        using "1.prems" contains_dropWhile by blast
      from "1.IH"(3) [OF ne nw ns refl nr this] ne nw ns nr show ?thesis
        by (subst unstructured_loop.simps) (simp add: Let_def)
    qed
  qed
qed

lemma get_unstructured_total:
  assumes "\<not> contains v [61, 63]"
  shows "\<exists>t. get_unstructured (cpython G) v = Inr t"
proof -
  from unstructured_loop_total [OF assms] obtain xs ds
    where "unstructured_loop G [] [] v = Inr (xs, ds)"
    by fastforce
  then have "cpython_get_unstructured G v = Inr (xs, ds)"
    by (simp only: cpython_get_unstructured_def)
  from get_unstructured_cpython [OF this] show ?thesis
    by blast
qed

section \<open>The claims\<close>

text \<open>
  Claim C1, as stated, takes \<open><a(b\<close> for a value on which the grammar crashes. CPython
  parses it: \<open>get_dot_atom_text\<close> reads \<open>a\<close>, \<open>get_msg_id\<close> returns with the defect
  "msg-id with no id-right" and \<open>parse_message_id\<close> adds "Unexpected '(b'". The header is a
  genuine \<open>MessageID\<close> whose decoded string is \<open><a\<close> (see the counterexample).
  Amended: for a value on which \<open>parse_message_id\<close> raises \<open>IndexError\<close>, such as \<open><[\<close>,
  whose unstructured parse returns and decodes to a string without surrogates,
  constructing the \<open>message-id\<close> header does not raise; the parse tree is the
  \<open>InvalidMessageID\<close> built from the tokens of the unstructured parse; the defects are the
  fallback defect followed by the defects of these tokens; the decoded string is the
  unstructured decoding of the value. For \<open><[\<close> that string is \<open><[\<close>, not empty.
\<close>

theorem C1_fallback_on_crash:
  "(parser_parse_message_id L v = Inl IndexError \<longrightarrow> get_unstructured L v = Inr tok \<longrightarrow>
    \<not> has_surrogates (tok_str tok) \<longrightarrow> lower L name = py ''message-id'' \<longrightarrow>
      RelayHeaderRegistry_call L relay_header_factory name v =
        Inr \<lparr>h_name = name, h_decoded = tok_str tok, h_parse_tree = fallback_tree v tok,
             h_defects = fallback_defect v # concat (map all_defects (items tok)),
             as_unstructured = Some
               \<lparr>h_name = name, h_decoded = tok_str tok, h_parse_tree = tok,
                h_defects = []\<rparr>\<rparr> \<and>
      token_type (fallback_tree v tok) = ''invalid-message-id'') \<and>
   parse_message_id G (py ''<['') = Inl IndexError \<and>
   RelayHeaderRegistry_call (cpython G) relay_header_factory (py ''message-id'') (py ''<['') =
     Inr \<lparr>h_name = py ''message-id'', h_decoded = py ''<['',
          h_parse_tree =
            TokenList ''InvalidMessageID'' ''invalid-message-id''
              [Terminal ValueTerminal ''vtext'' (py ''<['') []]
              [fallback_defect (py ''<['')],
          h_defects = [fallback_defect (py ''<['')],
          as_unstructured = Some
            \<lparr>h_name = py ''message-id'', h_decoded = py ''<['',
             h_parse_tree =
               TokenList ''UnstructuredTokenList'' ''unstructured''
                 [Terminal ValueTerminal ''vtext'' (py ''<['') []] [],
             h_defects = []\<rparr>\<rparr>"
proof (intro conjI impI)
  assume a: "parser_parse_message_id L v = Inl IndexError" "get_unstructured L v = Inr tok"
    "\<not> has_surrogates (tok_str tok)" "lower L name = py ''message-id''"
  show "RelayHeaderRegistry_call L relay_header_factory name v =
        Inr \<lparr>h_name = name, h_decoded = tok_str tok, h_parse_tree = fallback_tree v tok,
             h_defects = fallback_defect v # concat (map all_defects (items tok)),
             as_unstructured = Some
               \<lparr>h_name = name, h_decoded = tok_str tok, h_parse_tree = tok,
                h_defects = []\<rparr>\<rparr>"
    unfolding relay_call_message_id [OF a(4)] relay_new_fallback [OF a(1) a(2) a(3)]
      unstructured_new_plain [OF a(2) a(3)]
    by (simp add: base_header.extend_def)
  show "token_type (fallback_tree v tok) = ''invalid-message-id''"
    by (simp add: fallback_tree_def InvalidMessageID_def defects_append_def)
next
  show "parse_message_id G (py ''<['') = Inl IndexError"
    by (rule parse_message_id_open_bracket)
next
  show "RelayHeaderRegistry_call (cpython G) relay_header_factory (py ''message-id'')
          (py ''<['') =
     Inr \<lparr>h_name = py ''message-id'', h_decoded = py ''<['',
          h_parse_tree =
            TokenList ''InvalidMessageID'' ''invalid-message-id''
              [Terminal ValueTerminal ''vtext'' (py ''<['') []]
              [fallback_defect (py ''<['')],
          h_defects = [fallback_defect (py ''<['')],
          as_unstructured = Some
            \<lparr>h_name = py ''message-id'', h_decoded = py ''<['',
             h_parse_tree =
               TokenList ''UnstructuredTokenList'' ''unstructured''
                 [Terminal ValueTerminal ''vtext'' (py ''<['') []] [],
             h_defects = []\<rparr>\<rparr>"
    by (rule construct_open_bracket)
qed

text \<open>A witness of C1 at concrete values.\<close>

theorem C1_fallback_on_crash_witness:
  "parser_parse_message_id (cpython not_embedded) (py ''<['') = Inl IndexError \<and>
   get_unstructured (cpython not_embedded) (py ''<['') =
     Inr (TokenList ''UnstructuredTokenList'' ''unstructured''
            [Terminal ValueTerminal ''vtext'' (py ''<['') []] []) \<and>
   lower (cpython not_embedded) (py ''Message-ID'') = py ''message-id'' \<and>
   RelayHeaderRegistry_call (cpython not_embedded) relay_header_factory (py ''Message-ID'')
       (py ''<['') =
     Inr \<lparr>h_name = py ''Message-ID'', h_decoded = py ''<['',
          h_parse_tree =
            TokenList ''InvalidMessageID'' ''invalid-message-id''
              [Terminal ValueTerminal ''vtext'' (py ''<['') []]
              [fallback_defect (py ''<['')],
          h_defects = [fallback_defect (py ''<['')],
          as_unstructured = Some
            \<lparr>h_name = py ''Message-ID'', h_decoded = py ''<['',
             h_parse_tree =
               TokenList ''UnstructuredTokenList'' ''unstructured''
                 [Terminal ValueTerminal ''vtext'' (py ''<['') []] [],
             h_defects = []\<rparr>\<rparr> \<and>
   py ''<['' \<noteq> []"
proof -
  let ?L = "cpython not_embedded"
  let ?tok = "TokenList ''UnstructuredTokenList'' ''unstructured''
                [Terminal ValueTerminal ''vtext'' (py ''<['') []] []"
  have c: "parser_parse_message_id ?L (py ''<['') = Inl IndexError"
    by (simp add: cpython_fields parse_message_id_open_bracket)
  have u: "get_unstructured ?L (py ''<['') = Inr ?tok"
    by (rule get_unstructured_cpython) (rule get_unstructured_open_bracket)
  have s: "\<not> has_surrogates (tok_str ?tok)"
    by (rule no_surrogates_ascii) (simp add: py_def)
  have l: "lower ?L (py ''Message-ID'') = py ''message-id''"
    by (rule lower_Message_ID)
  have n: "py ''<['' \<noteq> []"
    by (simp add: py_def)
  from C1_fallback_on_crash [of ?L "py ''<[''" ?tok "py ''Message-ID''" not_embedded] c u s l
  have "RelayHeaderRegistry_call ?L relay_header_factory (py ''Message-ID'') (py ''<['') =
        Inr \<lparr>h_name = py ''Message-ID'', h_decoded = tok_str ?tok,
             h_parse_tree = fallback_tree (py ''<['') ?tok,
             h_defects = fallback_defect (py ''<['') # concat (map all_defects (items ?tok)),
             as_unstructured = Some
               \<lparr>h_name = py ''Message-ID'', h_decoded = tok_str ?tok, h_parse_tree = ?tok,
                h_defects = []\<rparr>\<rparr>"
    by blast
  then have "RelayHeaderRegistry_call ?L relay_header_factory (py ''Message-ID'') (py ''<['') =
     Inr \<lparr>h_name = py ''Message-ID'', h_decoded = py ''<['',
          h_parse_tree =
            TokenList ''InvalidMessageID'' ''invalid-message-id''
              [Terminal ValueTerminal ''vtext'' (py ''<['') []]
              [fallback_defect (py ''<['')],
          h_defects = [fallback_defect (py ''<['')],
          as_unstructured = Some
            \<lparr>h_name = py ''Message-ID'', h_decoded = py ''<['',
             h_parse_tree = ?tok, h_defects = []\<rparr>\<rparr>"
    by (simp add: fallback_tree_def InvalidMessageID_def defects_append_def)
  with c u l n show ?thesis
    by blast
qed

text \<open>The counterexample to C1 as stated.\<close>

theorem C1_counterexample:
  "RelayHeaderRegistry_call (cpython not_embedded) relay_header_factory (py ''message-id'')
     (py ''<a(b'') =
     Inr \<lparr>h_name = py ''message-id'', h_decoded = py ''<a'',
          h_parse_tree =
            TokenList ''MessageID'' ''message-id''
              [TokenList ''MsgID'' ''msg-id''
                 [Terminal ValueTerminal ''msg-id-start'' (py ''<'') [],
                  TokenList ''DotAtomText'' ''dot-atom-text''
                    [Terminal ValueTerminal ''atext'' (py ''a'') []] []]
                 [InvalidHeaderDefect (Text (py ''msg-id with no id-right''))]]
              [InvalidHeaderDefect (TextRepr (py ''Unexpected '') (py ''(b''))],
          h_defects =
            [InvalidHeaderDefect (TextRepr (py ''Unexpected '') (py ''(b'')),
             InvalidHeaderDefect (Text (py ''msg-id with no id-right''))],
          as_unstructured = Some
            \<lparr>h_name = py ''message-id'', h_decoded = py ''<a(b'',
             h_parse_tree =
               TokenList ''UnstructuredTokenList'' ''unstructured''
                 [Terminal ValueTerminal ''vtext'' (py ''<a(b'') []] [],
             h_defects = []\<rparr>\<rparr> \<and>
   parse_message_id not_embedded (py ''<a(b'') \<noteq> Inl IndexError \<and>
   fallback_defect (py ''<a(b'') \<notin>
     set [InvalidHeaderDefect (TextRepr (py ''Unexpected '') (py ''(b'')),
          InvalidHeaderDefect (Text (py ''msg-id with no id-right''))] \<and>
   py ''<a'' \<noteq> py ''<a(b''"
proof (intro conjI)
  show "parse_message_id not_embedded (py ''<a(b'') \<noteq> Inl IndexError"
    by (simp add: parse_message_id_a_paren_b)
  show "fallback_defect (py ''<a(b'') \<notin>
     set [InvalidHeaderDefect (TextRepr (py ''Unexpected '') (py ''(b'')),
          InvalidHeaderDefect (Text (py ''msg-id with no id-right''))]"
    by (simp add: fallback_defect_def py_def)
  show "py ''<a'' \<noteq> py ''<a(b''"
    by (simp add: py_def)
qed (rule construct_a_paren_b)



text \<open>
  Claim C3: when the value parser raises an exception that is not an \<open>IndexError\<close>,
  \<open>RelayMessageIDHeader.parse\<close> raises it, and so do the constructor of the class and the
  registry called with a name that lower-cases to \<open>message-id\<close>: only \<open>IndexError\<close> is
  turned into the fallback tree.
\<close>

theorem C3_other_failures_propagate:
  assumes "parser_parse_message_id L v = Inl e" and "e \<noteq> IndexError"
  shows "RelayMessageIDHeader_parse L v kw = Inl e \<and>
         class_new L RelayMessageIDHeader name v = Inl e \<and>
         (lower L name = py ''message-id'' \<longrightarrow>
            RelayHeaderRegistry_call L relay_header_factory name v = Inl e)"
  using assms
  by (simp add: relay_parse_other BaseHeader_new_def RelayHeaderRegistry_call_def
        HeaderRegistry_call_def getitem_relay_message_id)

text \<open>A witness of C3 at concrete values.\<close>

theorem C3_other_failures_propagate_witness:
  "parser_parse_message_id (cpython not_embedded) (py '' <a@b>'') =
     Inl (OtherError ''not embedded'') \<and>
   OtherError ''not embedded'' \<noteq> IndexError \<and>
   RelayMessageIDHeader_parse (cpython not_embedded) (py '' <a@b>'')
     \<lparr>kw_parse_tree = None, kw_decoded = None, kw_defects = Some []\<rparr> =
     Inl (OtherError ''not embedded'') \<and>
   class_new (cpython not_embedded) RelayMessageIDHeader (py ''Message-ID'') (py '' <a@b>'') =
     Inl (OtherError ''not embedded'') \<and>
   RelayHeaderRegistry_call (cpython not_embedded) relay_header_factory (py ''Message-ID'')
     (py '' <a@b>'') = Inl (OtherError ''not embedded'')"
proof -
  let ?L = "cpython not_embedded"
  have c: "parser_parse_message_id ?L (py '' <a@b>'') = Inl (OtherError ''not embedded'')"
    by (simp add: cpython_fields parse_message_id_leading_blank)
  have n: "OtherError ''not embedded'' \<noteq> IndexError"
    by simp
  have l: "lower ?L (py ''Message-ID'') = py ''message-id''"
    by (rule lower_Message_ID)
  from C3_other_failures_propagate [OF c n, of
      "\<lparr>kw_parse_tree = None, kw_decoded = None, kw_defects = Some []\<rparr>" "py ''Message-ID''"]
    c n l
  show ?thesis
    by blast
qed



text \<open>
  Claim C5: when \<open>RelayMessageIDHeader.parse\<close> returns, on either path, \<open>decoded\<close> is the
  string of the parse tree it stored and \<open>defects\<close> is the list it received followed by all
  the defects of that tree; on the fallback path the fallback defect is among them.
\<close>

theorem C5_parse_postcondition:
  assumes "RelayMessageIDHeader_parse L v kw = Inr kw'"
  shows "\<exists>t ds. kw_parse_tree kw' = Some t \<and> kw_decoded kw' = Some (tok_str t) \<and>
           kw_defects kw = Some ds \<and> kw_defects kw' = Some (ds @ all_defects t) \<and>
           (parser_parse_message_id L v = Inr t \<or>
            parser_parse_message_id L v = Inl IndexError \<and>
            (\<exists>tok. get_unstructured L v = Inr tok \<and> t = fallback_tree v tok) \<and>
            fallback_defect v \<in> set (all_defects t))"
proof (cases "parser_parse_message_id L v")
  case (Inr t)
  with assms show ?thesis
    by (auto simp: relay_parse_success store_parse_tree_def split: option.splits)
next
  case (Inl e)
  show ?thesis
  proof (cases "e = IndexError")
    case False
    with Inl assms show ?thesis
      by (simp add: relay_parse_other)
  next
    case True
    with Inl have crash: "parser_parse_message_id L v = Inl IndexError"
      by simp
    show ?thesis
    proof (cases "get_unstructured L v")
      case (Inl e')
      with crash assms show ?thesis
        by (simp add: RelayMessageIDHeader_parse_def)
    next
      case (Inr tok)
      with crash assms have "store_parse_tree (fallback_tree v tok) kw = Inr kw'"
        by (simp add: relay_parse_fallback)
      with crash Inr show ?thesis
        by (auto simp: store_parse_tree_def all_defects_fallback_tree split: option.splits)
    qed
  qed
qed

text \<open>A witness of C5 at concrete values.\<close>

theorem C5_parse_postcondition_witness:
  "(\<exists>kw' t ds.
      RelayMessageIDHeader_parse (cpython not_embedded) (py ''<['')
        \<lparr>kw_parse_tree = None, kw_decoded = None, kw_defects = Some []\<rparr> = Inr kw' \<and>
      kw_parse_tree kw' = Some t \<and> kw_decoded kw' = Some (tok_str t) \<and>
      kw_defects kw' = Some (ds @ all_defects t) \<and>
      parser_parse_message_id (cpython not_embedded) (py ''<['') = Inl IndexError \<and>
      fallback_defect (py ''<['') \<in> set (all_defects t)) \<and>
   (\<exists>kw' t ds.
      RelayMessageIDHeader_parse (cpython not_embedded) (py ''<abc123@example.com>'')
        \<lparr>kw_parse_tree = None, kw_decoded = None, kw_defects = Some []\<rparr> = Inr kw' \<and>
      kw_parse_tree kw' = Some t \<and> kw_decoded kw' = Some (tok_str t) \<and>
      kw_defects kw' = Some (ds @ all_defects t) \<and>
      parser_parse_message_id (cpython not_embedded) (py ''<abc123@example.com>'') = Inr t)"
proof
  let ?L = "cpython not_embedded"
  let ?kw = "\<lparr>kw_parse_tree = None, kw_decoded = None, kw_defects = Some []\<rparr>"
  obtain kw' where p: "RelayMessageIDHeader_parse ?L (py ''<['') ?kw = Inr kw'"
    using relay_parse_open_bracket [of not_embedded] by blast
  have c: "parser_parse_message_id ?L (py ''<['') = Inl IndexError"
    by (simp add: cpython_fields parse_message_id_open_bracket)
  from C5_parse_postcondition [OF p] c p
  show "\<exists>kw' t ds.
      RelayMessageIDHeader_parse ?L (py ''<['') ?kw = Inr kw' \<and>
      kw_parse_tree kw' = Some t \<and> kw_decoded kw' = Some (tok_str t) \<and>
      kw_defects kw' = Some (ds @ all_defects t) \<and>
      parser_parse_message_id ?L (py ''<['') = Inl IndexError \<and>
      fallback_defect (py ''<['') \<in> set (all_defects t)"
    by auto
next
  let ?L = "cpython not_embedded"
  let ?kw = "\<lparr>kw_parse_tree = None, kw_decoded = None, kw_defects = Some []\<rparr>"
  obtain kw' where p: "RelayMessageIDHeader_parse ?L (py ''<abc123@example.com>'') ?kw = Inr kw'"
    using relay_parse_example [of not_embedded] by blast
  have c: "parser_parse_message_id ?L (py ''<abc123@example.com>'') \<noteq> Inl IndexError"
    by (simp add: cpython_fields parse_message_id_example)
  from C5_parse_postcondition [OF p] c p
  show "\<exists>kw' t ds.
      RelayMessageIDHeader_parse ?L (py ''<abc123@example.com>'') ?kw = Inr kw' \<and>
      kw_parse_tree kw' = Some t \<and> kw_decoded kw' = Some (tok_str t) \<and>
      kw_defects kw' = Some (ds @ all_defects t) \<and>
      parser_parse_message_id ?L (py ''<abc123@example.com>'') = Inr t"
    by auto
qed

text \<open>
  Claim C6, as stated, says that the unstructured view is never the source of a failure.
  It can be: for the value \<open><a@b>\<close> followed by the lone surrogate U+D800 the
  \<open>message-id\<close> header is built (its decoded string is \<open><a@b>\<close>), but the decoded string
  of the view holds the surrogate, \<open>_sanitize\<close> raises \<open>UnicodeEncodeError\<close> and the
  registry returns no instance (see the counterexample).
  Amended: when the construction by the resolved class raises, the registry raises the
  same exception and returns no instance; when it returns, the registry raises exactly
  when \<open>get_unstructured\<close> raises or the unstructured decoding holds a surrogate outside
  U+DC80 to U+DCFF, and otherwise returns the instance with its view. CPython's
  \<open>get_unstructured\<close> does not raise on a value without the marker \<open>=?\<close>.
\<close>

theorem C6_construct_failure:
  "RelayHeaderRegistry_call L R name v =
     (case class_new L (HeaderRegistry_getitem L R name) name v of
        Inl e \<Rightarrow> Inl e
      | Inr b \<Rightarrow>
          (case get_unstructured L v of
             Inl e \<Rightarrow> Inl e
           | Inr t \<Rightarrow>
               if list_ex (\<lambda>c. is_surrogate c \<and> \<not> is_escaped_byte c) (tok_str t)
               then Inl UnicodeEncodeError
               else Inr (base_header.extend b
                      \<lparr>as_unstructured = Some
                         \<lparr>h_name = name,
                          h_decoded = (if has_surrogates (tok_str t)
                                       then decode_replace L (tok_str t) else tok_str t),
                          h_parse_tree = t, h_defects = []\<rparr>\<rparr>))) \<and>
   (\<not> contains v [61, 63] \<longrightarrow> (\<exists>t. get_unstructured (cpython G) v = Inr t))"
proof
  show "RelayHeaderRegistry_call L R name v =
     (case class_new L (HeaderRegistry_getitem L R name) name v of
        Inl e \<Rightarrow> Inl e
      | Inr b \<Rightarrow>
          (case get_unstructured L v of
             Inl e \<Rightarrow> Inl e
           | Inr t \<Rightarrow>
               if list_ex (\<lambda>c. is_surrogate c \<and> \<not> is_escaped_byte c) (tok_str t)
               then Inl UnicodeEncodeError
               else Inr (base_header.extend b
                      \<lparr>as_unstructured = Some
                         \<lparr>h_name = name,
                          h_decoded = (if has_surrogates (tok_str t)
                                       then decode_replace L (tok_str t) else tok_str t),
                          h_parse_tree = t, h_defects = []\<rparr>\<rparr>)))"
    unfolding RelayHeaderRegistry_call_def HeaderRegistry_call_def unstructured_new
    by (simp split: sum.splits)
  show "\<not> contains v [61, 63] \<longrightarrow> (\<exists>t. get_unstructured (cpython G) v = Inr t)"
    by (simp add: get_unstructured_total)
qed

text \<open>A witness of C6 at concrete values.\<close>

theorem C6_construct_failure_witness:
  "RelayHeaderRegistry_call (cpython not_embedded) relay_header_factory (py ''Message-ID'')
     (py '' <a@b>'') = Inl (OtherError ''not embedded'') \<and>
   class_new (cpython not_embedded)
     (HeaderRegistry_getitem (cpython not_embedded) relay_header_factory (py ''Message-ID''))
     (py ''Message-ID'') (py '' <a@b>'') = Inl (OtherError ''not embedded'') \<and>
   \<not> contains (py '' <a@b>'') [61, 63] \<and>
   (\<exists>t. get_unstructured (cpython not_embedded) (py '' <a@b>'') = Inr t)"
proof -
  let ?L = "cpython not_embedded"
  have c: "parser_parse_message_id ?L (py '' <a@b>'') = Inl (OtherError ''not embedded'')"
    by (simp add: cpython_fields parse_message_id_leading_blank)
  have g: "HeaderRegistry_getitem ?L relay_header_factory (py ''Message-ID'') =
             RelayMessageIDHeader"
    by (rule getitem_relay_message_id [OF lower_Message_ID])
  have p: "class_new ?L
     (HeaderRegistry_getitem ?L relay_header_factory (py ''Message-ID''))
     (py ''Message-ID'') (py '' <a@b>'') = Inl (OtherError ''not embedded'')"
    unfolding g by (simp add: BaseHeader_new_def relay_parse_other [OF c])
  have n: "\<not> contains (py '' <a@b>'') [61, 63]"
    by (simp add: py_def startswith_def)
  from C6_construct_failure [of ?L relay_header_factory "py ''Message-ID''" "py '' <a@b>''"
      not_embedded] p n
  show ?thesis
    by simp
qed

text \<open>The counterexample to C6 as stated.\<close>

theorem C6_counterexample:
  "HeaderRegistry_call (cpython not_embedded) relay_header_factory (py ''message-id'')
     (py ''<a@b>'' @ [55296]) =
     Inr \<lparr>h_name = py ''message-id'', h_decoded = py ''<a@b>'',
          h_parse_tree =
            TokenList ''MessageID'' ''message-id''
              [TokenList ''MsgID'' ''msg-id''
                 [Terminal ValueTerminal ''msg-id-start'' (py ''<'') [],
                  TokenList ''DotAtomText'' ''dot-atom-text''
                    [Terminal ValueTerminal ''atext'' (py ''a'') []] [],
                  Terminal ValueTerminal ''address-at-symbol'' (py ''@'') [],
                  TokenList ''DotAtomText'' ''dot-atom-text''
                    [Terminal ValueTerminal ''atext'' (py ''b'') []] [],
                  Terminal ValueTerminal ''msg-id-end'' (py ''>'') []]
                 []]
              [InvalidHeaderDefect (TextRepr (py ''Unexpected '') [55296])],
          h_defects = [InvalidHeaderDefect (TextRepr (py ''Unexpected '') [55296])]\<rparr> \<and>
   class_new (cpython not_embedded) UnstructuredHeader (py ''message-id'')
     (py ''<a@b>'' @ [55296]) = Inl UnicodeEncodeError \<and>
   RelayHeaderRegistry_call (cpython not_embedded) relay_header_factory (py ''message-id'')
     (py ''<a@b>'' @ [55296]) = Inl UnicodeEncodeError"
  by (intro conjI primary_lone_surrogate view_lone_surrogate construct_lone_surrogate)



text \<open>
  Claim C8: when the class resolved for the name is \<open>UnstructuredHeader\<close> (or its subclass
  \<open>UniqueUnstructuredHeader\<close>), the instance returned has its view, and the decoded string,
  the parse tree and the defects of the instance equal those of the view.
\<close>

theorem C8_unstructured_equivalence:
  assumes "HeaderRegistry_getitem L R name = UnstructuredHeader \<or>
           HeaderRegistry_getitem L R name = UniqueUnstructuredHeader"
      and "RelayHeaderRegistry_call L R name v = Inr h"
  shows "\<exists>u. as_unstructured h = Some u \<and> h_decoded h = h_decoded u \<and>
           h_parse_tree h = h_parse_tree u \<and> h_defects h = h_defects u"
  using assms
  by (auto simp: RelayHeaderRegistry_call_def HeaderRegistry_call_def base_header.extend_def
        split: sum.splits)

text \<open>A witness of C8 at concrete values.\<close>

theorem C8_unstructured_equivalence_witness:
  "\<exists>h u.
     HeaderRegistry_getitem (cpython not_embedded) relay_header_factory (py ''X-Note'') =
       UnstructuredHeader \<and>
     RelayHeaderRegistry_call (cpython not_embedded) relay_header_factory (py ''X-Note'')
       (py ''Hello  world'') = Inr h \<and>
     as_unstructured h = Some u \<and> h_decoded h = h_decoded u \<and>
     h_parse_tree h = h_parse_tree u \<and> h_defects h = h_defects u \<and>
     h_decoded h = py ''Hello  world''"
proof -
  let ?L = "cpython not_embedded"
  have g: "HeaderRegistry_getitem ?L relay_header_factory (py ''X-Note'') = UnstructuredHeader"
    unfolding HeaderRegistry_getitem_def lower_x_note relay_registry_x_note
    by (simp add: relay_header_factory_def HeaderRegistry_init_def)
  obtain h where h: "RelayHeaderRegistry_call ?L relay_header_factory (py ''X-Note'')
       (py ''Hello  world'') = Inr h" and d: "h_decoded h = py ''Hello  world''"
    using construct_x_note [of not_embedded] by simp
  from C8_unstructured_equivalence [OF disjI1 [OF g] h] g h d show ?thesis
    by blast
qed



text \<open>
  Claim C10: on the fallback path the tree that \<open>parse\<close> stores holds exactly one defect of
  its own, an \<open>InvalidHeaderDefect\<close> whose message is \<open>IndexError for invalid msg-id in '\<close>,
  the raw value and a closing quote; the defects that \<open>parse\<close> appends are this one
  followed by those of the tokens of the unstructured parse.
\<close>

theorem C10_fallback_defect_text:
  assumes "parser_parse_message_id L v = Inl IndexError"
      and "get_unstructured L v = Inr tok"
      and "kw_defects kw = Some ds"
  shows "\<exists>kw' t. RelayMessageIDHeader_parse L v kw = Inr kw' \<and> kw_parse_tree kw' = Some t \<and>
           defects t =
             [InvalidHeaderDefect
                (Text (py ''IndexError for invalid msg-id in '' @ [39] @ v @ [39]))] \<and>
           kw_defects kw' =
             Some (ds @
               [InvalidHeaderDefect
                  (Text (py ''IndexError for invalid msg-id in '' @ [39] @ v @ [39]))] @
               concat (map all_defects (items tok)))"
  using assms
  by (simp add: relay_parse_fallback store_parse_tree_def all_defects_fallback_tree)
     (simp add: fallback_tree_def InvalidMessageID_def defects_append_def fallback_defect_def)

text \<open>A witness of C10 at concrete values.\<close>

theorem C10_fallback_defect_text_witness:
  "\<exists>kw' t.
     parser_parse_message_id (cpython not_embedded) (py ''<['') = Inl IndexError \<and>
     RelayMessageIDHeader_parse (cpython not_embedded) (py ''<['')
       \<lparr>kw_parse_tree = None, kw_decoded = None, kw_defects = Some []\<rparr> = Inr kw' \<and>
     kw_parse_tree kw' = Some t \<and>
     defects t =
       [InvalidHeaderDefect
          (Text (py ''IndexError for invalid msg-id in '' @ [39] @ py ''<['' @ [39]))] \<and>
     kw_defects kw' =
       Some [InvalidHeaderDefect
               (Text (py ''IndexError for invalid msg-id in '' @ [39] @ py ''<['' @ [39]))]"
proof -
  let ?L = "cpython not_embedded"
  let ?tok = "TokenList ''UnstructuredTokenList'' ''unstructured''
                [Terminal ValueTerminal ''vtext'' (py ''<['') []] []"
  have c: "parser_parse_message_id ?L (py ''<['') = Inl IndexError"
    by (simp add: cpython_fields parse_message_id_open_bracket)
  have u: "get_unstructured ?L (py ''<['') = Inr ?tok"
    by (rule get_unstructured_cpython) (rule get_unstructured_open_bracket)
  have k: "kw_defects \<lparr>kw_parse_tree = None, kw_decoded = None, kw_defects = Some []\<rparr> =
             Some []"
    by simp
  from C10_fallback_defect_text [OF c u k] c show ?thesis
    by auto
qed

end
